theory Spec2Isabelle
  imports Complex_Main
begin

section \<open>Conventions of the embedding\<close>

text \<open>
  The classifier is Python. Its floats are modelled as exact reals, its unbounded
  integers as \<open>int\<close>, its strings as \<open>string\<close> (case conversion on the ASCII letters).
  A JSON payload is a record whose optional entries are \<open>option\<close> values: \<open>None\<close> stands
  for a missing key as well as for a JSON null, which is what \<open>d.get(k)\<close> returns in both
  cases. Report dictionaries are association lists in the key order of the source.
\<close>

subsection \<open>Strings\<close>

definition lower_char :: "char \<Rightarrow> char" where
  "lower_char c =
     (case map_of (zip ''ABCDEFGHIJKLMNOPQRSTUVWXYZ'' ''abcdefghijklmnopqrstuvwxyz'') c of
        Some d \<Rightarrow> d
      | None \<Rightarrow> c)"

definition upper_char :: "char \<Rightarrow> char" where
  "upper_char c =
     (case map_of (zip ''abcdefghijklmnopqrstuvwxyz'' ''ABCDEFGHIJKLMNOPQRSTUVWXYZ'') c of
        Some d \<Rightarrow> d
      | None \<Rightarrow> c)"

definition lower :: "string \<Rightarrow> string" where
  "lower s = map lower_char s"

definition upper :: "string \<Rightarrow> string" where
  "upper s = map upper_char s"

text \<open>\<open>s.replace(a, b)\<close> for one-character \<open>a\<close> and \<open>b\<close>, the only form the source uses.\<close>

definition replace_char :: "char \<Rightarrow> char \<Rightarrow> string \<Rightarrow> string" where
  "replace_char a b s = map (\<lambda>c. if c = a then b else c) s"

fun zacne_z :: "string \<Rightarrow> string \<Rightarrow> bool" where
  "zacne_z s [] = True"
| "zacne_z [] (p # ps) = False"
| "zacne_z (c # cs) (p # ps) = (c = p \<and> zacne_z cs ps)"

text \<open>\<open>vsebuje s p\<close> is Python's \<open>p in s\<close> on strings.\<close>

fun vsebuje :: "string \<Rightarrow> string \<Rightarrow> bool" where
  "vsebuje [] p = (p = [])"
| "vsebuje (c # cs) p = (zacne_z (c # cs) p \<or> vsebuje cs p)"

subsection \<open>Truthiness and the \<open>or\<close> chains\<close>

text \<open>
  \<open>a or b\<close> yields \<open>a\<close> when \<open>a\<close> is truthy and \<open>b\<close> otherwise; a number is truthy
  when it is not zero, \<open>None\<close> never is.
\<close>

definition resnicen :: "'a::zero option \<Rightarrow> bool" where
  "resnicen a = (case a of None \<Rightarrow> False | Some x \<Rightarrow> x \<noteq> 0)"

definition ali :: "'a::zero option \<Rightarrow> 'a option \<Rightarrow> 'a option" where
  "ali a b = (if resnicen a then a else b)"

definition ali_privzeto :: "'a::zero option \<Rightarrow> 'a \<Rightarrow> 'a" where
  "ali_privzeto a d = (case a of None \<Rightarrow> d | Some x \<Rightarrow> if x \<noteq> 0 then x else d)"

section \<open>models.py\<close>

datatype StopnjaTveganja = ZELO_NIZKO | NIZKO | SREDNJE | VISOKO | ZELO_VISOKO | KRITICNO

fun StopnjaTveganja_value :: "StopnjaTveganja \<Rightarrow> string" where
  "StopnjaTveganja_value ZELO_NIZKO = ''Very Low Risk''"
| "StopnjaTveganja_value NIZKO = ''Low Risk''"
| "StopnjaTveganja_value SREDNJE = ''Moderate Risk''"
| "StopnjaTveganja_value VISOKO = ''High Risk''"
| "StopnjaTveganja_value ZELO_VISOKO = ''Very High Risk''"
| "StopnjaTveganja_value KRITICNO = ''Critical Risk - Likely Scam''"

datatype TipPrevare =
  PONZIJEVA_SHEMA | RUG_PULL | PUMP_AND_DUMP | ALGORITMICNA_NAPAKA
  | SUMLJIVA_PONZI | TVEGANJE_BORZE | HONEYPOT | NEZNANO

fun TipPrevare_value :: "TipPrevare \<Rightarrow> string" where
  "TipPrevare_value PONZIJEVA_SHEMA = ''Ponzi Scheme''"
| "TipPrevare_value RUG_PULL = ''Rug Pull''"
| "TipPrevare_value PUMP_AND_DUMP = ''Pump and Dump''"
| "TipPrevare_value ALGORITMICNA_NAPAKA = ''Algorithmic Failure''"
| "TipPrevare_value SUMLJIVA_PONZI = ''Suspected Ponzi''"
| "TipPrevare_value TVEGANJE_BORZE = ''Exchange Token Risk''"
| "TipPrevare_value HONEYPOT = ''Honeypot''"
| "TipPrevare_value NEZNANO = ''Unknown/Not Classified''"

text \<open>\<open>TipPrevare(s)\<close>: the member whose value is \<open>s\<close>; \<open>None\<close> is the ValueError.\<close>

definition TipPrevare_of_value :: "string \<Rightarrow> TipPrevare option" where
  "TipPrevare_of_value s =
     find (\<lambda>t. TipPrevare_value t = s)
       [PONZIJEVA_SHEMA, RUG_PULL, PUMP_AND_DUMP, ALGORITMICNA_NAPAKA,
        SUMLJIVA_PONZI, TVEGANJE_BORZE, HONEYPOT, NEZNANO]"

datatype KategorijaProjekta = LAYER_1 | KVALITETEN_TOKEN | PROBLEMATICEN | NEKATEGORIZIRAN

fun KategorijaProjekta_value :: "KategorijaProjekta \<Rightarrow> string" where
  "KategorijaProjekta_value LAYER_1 = ''Layer 1 - Own Blockchain''"
| "KategorijaProjekta_value KVALITETEN_TOKEN = ''Quality Token - No Own Chain''"
| "KategorijaProjekta_value PROBLEMATICEN = ''Problematic/Scam Project''"
| "KategorijaProjekta_value NEKATEGORIZIRAN = ''Uncategorized''"

record TehnicneMetrike =
  dostopnost_kode :: real
  kvaliteta_arhitekture :: real
  decentralizacija :: real
  varnostni_mehanizmi :: real
  status_revizije :: real
  tveganje_pogodbe :: real

definition izracunaj_oceno_teh :: "TehnicneMetrike \<Rightarrow> real" where
  "izracunaj_oceno_teh m =
     (dostopnost_kode m * 0.15 +
      kvaliteta_arhitekture m * 0.18 +
      decentralizacija m * 0.22 +
      varnostni_mehanizmi m * 0.22 +
      status_revizije m * 0.13 +
      tveganje_pogodbe m * 0.10) * 10"

record EkonomskeMetrike =
  pravicnost_distribucije :: real
  mehanizem_inflacije :: real
  vesting_urnik :: real
  koncentracija_lastnistva :: real
  globina_likvidnosti :: real
  indikatorji_manipulacije :: real
  vzdrznost_tokenomike :: real

definition izracunaj_oceno_eko :: "EkonomskeMetrike \<Rightarrow> real" where
  "izracunaj_oceno_eko m =
     (pravicnost_distribucije m * 0.18 +
      mehanizem_inflacije m * 0.12 +
      vesting_urnik m * 0.15 +
      koncentracija_lastnistva m * 0.20 +
      globina_likvidnosti m * 0.15 +
      indikatorji_manipulacije m * 0.12 +
      vzdrznost_tokenomike m * 0.08) * 10"

record SocialneMetrike =
  transparentnost_ekipe :: real
  izkusenost_ekipe :: real
  kvaliteta_dokumentacije :: real
  angaziranost_skupnosti :: real
  pristop_marketinga :: real
  prisotnost_na_omrezjih :: real
  zdravje_skupnosti :: real

definition izracunaj_oceno_soc :: "SocialneMetrike \<Rightarrow> real" where
  "izracunaj_oceno_soc m =
     (transparentnost_ekipe m * 0.22 +
      izkusenost_ekipe m * 0.18 +
      kvaliteta_dokumentacije m * 0.18 +
      angaziranost_skupnosti m * 0.15 +
      pristop_marketinga m * 0.10 +
      prisotnost_na_omrezjih m * 0.08 +
      zdravje_skupnosti m * 0.09) * 10"

section \<open>The payload\<close>

text \<open>
  \<open>pridobi_podatke_kovanca\<close> returns a dictionary with the keys \<open>basic_info\<close> (the coin's
  detail document), \<open>market_data\<close> (the coin's entry of the markets listing) and
  \<open>coin_id\<close>. The records below hold every entry the classifier reads. Numbers that are
  read through an \<open>or\<close> chain are optional; an entry read as \<open>d.get(k) or 0\<close> (or
  \<open>or []\<close>) is stored with that default already applied, since it is read in no other way.
\<close>

record trzni_podatki =
  m_market_cap_rank :: "int option"
  m_market_cap :: "real option"
  m_total_volume :: "real option"
  m_max_supply :: "real option"
  m_circulating_supply :: "real option"
  m_ath_change_percentage :: "real option"
  m_price_change_percentage_7d_in_currency :: "real option"
  m_price_change_percentage_30d_in_currency :: "real option"

text \<open>
  \<open>basic_info['market_data']\<close>; \<open>i_market_cap_usd\<close> is \<open>market_cap['usd']\<close>, and likewise
  for the volume and the all-time-high change.
\<close>

record trzni_info =
  i_market_cap_rank :: "int option"
  i_market_cap_usd :: "real option"
  i_total_volume_usd :: "real option"
  i_max_supply :: "real option"
  i_circulating_supply :: "real option"
  i_ath_change_percentage_usd :: "real option"
  i_price_change_percentage_7d :: "real option"
  i_price_change_percentage_30d :: "real option"

record developer_data =
  stars :: int
  forks :: int
  commit_count_4_weeks :: int

record links =
  repos_url_github :: "string list"
  blockchain_site :: "string list"
  homepage :: "string list"
  whitepaper :: string
  chat_url :: "string list"
  official_forum_url :: "string list"

record community_data =
  twitter_followers :: int
  reddit_subscribers :: int
  telegram_channel_user_count :: int
  reddit_accounts_active_48h :: int

text \<open>
  \<open>genesis_date\<close> is the parsed date as a day number; \<open>None\<close> is a missing, empty or
  unparseable date string. \<open>description_en\<close> is \<open>description['en']\<close>.
\<close>

record basic_info =
  name :: "string option"
  symbol :: "string option"
  genesis_date :: "int option"
  developer :: developer_data
  povezave :: links
  skupnost :: community_data
  categories :: "string list"
  sentiment_votes_up_percentage :: "real option"
  description_en :: "string option"
  info_market_data :: trzni_info

record podatki =
  osnovni :: basic_info
  market_data :: trzni_podatki
  coin_id :: string

section \<open>analizatorji.py: shared readers\<close>

definition dobi_rang :: "podatki \<Rightarrow> int" where
  "dobi_rang p =
     ali_privzeto
       (ali (m_market_cap_rank (market_data p)) (i_market_cap_rank (info_market_data (osnovni p))))
       9999"

definition dobi_trzno_kap :: "podatki \<Rightarrow> real" where
  "dobi_trzno_kap p =
     ali_privzeto
       (ali (m_market_cap (market_data p)) (i_market_cap_usd (info_market_data (osnovni p))))
       0"

definition dobi_volumen :: "podatki \<Rightarrow> real" where
  "dobi_volumen p =
     ali_privzeto
       (ali (m_total_volume (market_data p)) (i_total_volume_usd (info_market_data (osnovni p))))
       0"

text \<open>
  \<open>_izracunaj_starost\<close> reads the clock; \<open>danes\<close> is today's day number. The result
  is 0 without a usable date, else the whole days since genesis over 365.
\<close>

definition izracunaj_starost :: "int \<Rightarrow> int option \<Rightarrow> real" where
  "izracunaj_starost danes datum_geneze =
     (case datum_geneze of
        None \<Rightarrow> 0
      | Some geneza \<Rightarrow> real_of_int (danes - geneza) / 365)"

section \<open>Technical analysis\<close>

text \<open>The age block of \<open>analiziraj_tehnicne\<close>: a computed age of 0 is replaced by rank.\<close>

definition starost_let_tehnicne :: "int \<Rightarrow> real \<Rightarrow> real" where
  "starost_let_tehnicne rang starost =
     (if starost = 0 then
        (if rang \<le> 10 then 8.0
         else if rang \<le> 20 then 6.0
         else if rang \<le> 50 then 4.0
         else if rang \<le> 100 then 3.0
         else if rang \<le> 200 then 2.0
         else 1.0)
      else starost)"

definition ocena_kode :: "links \<Rightarrow> real" where
  "ocena_kode l =
     (if repos_url_github l \<noteq> [] then 8.5
      else if blockchain_site l \<noteq> [] \<and> (\<exists>s \<in> set (blockchain_site l). s \<noteq> []) then 6.0
      else 4.0)"

definition ocena_arhitekture :: "developer_data \<Rightarrow> int \<Rightarrow> real \<Rightarrow> real" where
  "ocena_arhitekture r rang starost_let =
     (let zvezdice = stars r; forki = forks r; commiti = commit_count_4_weeks r in
      if zvezdice > 50000 \<and> forki > 20000 then 9.5
      else if zvezdice > 30000 \<and> forki > 10000 then 9.0
      else if zvezdice > 15000 \<and> forki > 5000 then 8.5
      else if zvezdice > 5000 then 8.0
      else if zvezdice > 1000 then 7.5
      else if zvezdice > 500 \<or> commiti > 50 then 7.0
      else if zvezdice > 100 \<or> commiti > 20 then 6.0
      else if zvezdice > 0 \<or> commiti > 0 then 5.0
      else if rang \<le> 10 \<and> starost_let > 5 then 9.0
      else if rang \<le> 20 \<and> starost_let > 4 then 8.5
      else if rang \<le> 30 \<and> starost_let > 3 then 8.0
      else if rang \<le> 50 \<and> starost_let > 2 then 7.5
      else if rang \<le> 100 \<and> starost_let > 1 then 7.0
      else if rang \<le> 200 then 6.5
      else if rang \<le> 500 then 5.5
      else 4.0)"

definition ocena_decentralizacije :: "int \<Rightarrow> real \<Rightarrow> real" where
  "ocena_decentralizacije rang starost_let =
     (if starost_let > 10 \<and> rang \<le> 5 then 9.5
      else if starost_let > 6 \<and> rang \<le> 15 then 9.0
      else if starost_let > 4 \<and> rang \<le> 30 then 8.5
      else if starost_let > 3 \<and> rang \<le> 50 then 8.0
      else if starost_let > 2 \<and> rang \<le> 100 then 7.5
      else if starost_let > 2 then 7.0
      else if starost_let > 1 then 6.5
      else if rang \<le> 100 then 6.0
      else 5.0)"

definition ocena_varnosti :: "int \<Rightarrow> real" where
  "ocena_varnosti rang =
     (if rang \<le> 5 then 9.5
      else if rang \<le> 10 then 9.0
      else if rang \<le> 20 then 8.5
      else if rang \<le> 50 then 8.0
      else if rang \<le> 100 then 7.5
      else if rang \<le> 200 then 7.0
      else if rang \<le> 500 then 6.0
      else if rang \<le> 1000 then 5.0
      else 4.0)"

definition ocena_revizije :: "int \<Rightarrow> real \<Rightarrow> real" where
  "ocena_revizije rang starost_let =
     (if rang \<le> 10 \<and> starost_let > 5 then 9.5
      else if rang \<le> 20 \<and> starost_let > 3 then 9.0
      else if rang \<le> 50 \<and> starost_let > 2 then 8.0
      else if rang \<le> 100 \<and> starost_let > 1 then 7.5
      else if rang \<le> 200 then 7.0
      else if rang \<le> 500 then 6.0
      else 5.0)"

definition je_token :: "string list \<Rightarrow> bool" where
  "je_token kategorije =
     (\<exists>kat \<in> set kategorije.
        vsebuje (lower kat) ''token'' \<or> vsebuje (lower kat) ''erc'' \<or> vsebuje (lower kat) ''bep'')"

definition ocena_pogodbe :: "string list \<Rightarrow> int \<Rightarrow> real \<Rightarrow> real" where
  "ocena_pogodbe kategorije rang starost_let =
     (if \<not> je_token kategorije then 8.0
      else if rang \<le> 50 \<and> starost_let > 3 then 8.0
      else if rang \<le> 100 \<and> starost_let > 2 then 7.5
      else if rang \<le> 200 \<and> starost_let > 1 then 7.0
      else 6.0)"

text \<open>
  The analysers receive the fraud indicators as a second argument and never read it;
  the model leaves that argument out.
\<close>

definition analiziraj_tehnicne :: "int \<Rightarrow> podatki \<Rightarrow> TehnicneMetrike" where
  "analiziraj_tehnicne danes p =
     (let rang = dobi_rang p;
          starost_let =
            starost_let_tehnicne rang (izracunaj_starost danes (genesis_date (osnovni p)));
          kategorije = categories (osnovni p)
      in \<lparr> dostopnost_kode = ocena_kode (povezave (osnovni p)),
           kvaliteta_arhitekture = ocena_arhitekture (developer (osnovni p)) rang starost_let,
           decentralizacija = ocena_decentralizacije rang starost_let,
           varnostni_mehanizmi = ocena_varnosti rang,
           status_revizije = ocena_revizije rang starost_let,
           tveganje_pogodbe = ocena_pogodbe kategorije rang starost_let \<rparr>)"

section \<open>Economic analysis\<close>

text \<open>The age block of \<open>analiziraj_ekonomske\<close>.\<close>

definition starost_let_ekonomske :: "int \<Rightarrow> real \<Rightarrow> real" where
  "starost_let_ekonomske rang starost =
     (if starost = 0 then
        (if rang \<le> 10 then 8.0
         else if rang \<le> 20 then 6.0
         else if rang \<le> 50 then 4.0
         else if rang \<le> 100 then 3.0
         else 2.0)
      else starost)"

definition razmerje_volumna :: "real \<Rightarrow> real \<Rightarrow> real" where
  "razmerje_volumna volumen trzna_kap =
     (if trzna_kap > 0 then volumen / trzna_kap * 100 else 0)"

definition ocena_distribucije :: "real \<Rightarrow> int \<Rightarrow> real \<Rightarrow> real" where
  "ocena_distribucije razmerje rang starost_let =
     (let ocena =
            (if razmerje > 15 then 9.5
             else if razmerje > 8 then 9.0
             else if razmerje > 4 then 8.5
             else if razmerje > 2 then 8.0
             else if razmerje > 1 then 7.5
             else if razmerje > 0.5 then 7.0
             else if razmerje > 0.1 then 6.0
             else 5.0)
      in if rang \<le> 10 \<and> starost_let > 5 then max ocena 9.0
         else if rang \<le> 30 \<and> starost_let > 3 then max ocena 8.5
         else if rang \<le> 50 then max ocena 8.0
         else if rang \<le> 100 then max ocena 7.5
         else ocena)"

definition ocena_inflacije :: "real option \<Rightarrow> real \<Rightarrow> real" where
  "ocena_inflacije max_zaloga v_obtoku =
     (case max_zaloga of
        None \<Rightarrow> 6.5
      | Some mz \<Rightarrow>
          if mz \<noteq> 0 \<and> v_obtoku \<noteq> 0 \<and> mz > 0 then
            (let razmerje_zaloge = v_obtoku / mz in
             if razmerje_zaloge > 0.9 then 9.0
             else if razmerje_zaloge > 0.75 then 8.0
             else if razmerje_zaloge > 0.5 then 7.0
             else if razmerje_zaloge > 0.3 then 6.0
             else 5.0)
          else 6.5)"

definition ocena_vestinga :: "real \<Rightarrow> real" where
  "ocena_vestinga starost_let =
     (if starost_let > 10 then 9.5
      else if starost_let > 7 then 9.0
      else if starost_let > 5 then 8.5
      else if starost_let > 3 then 8.0
      else if starost_let > 2 then 7.5
      else if starost_let > 1 then 7.0
      else 6.0)"

definition ocena_koncentracije :: "real \<Rightarrow> int \<Rightarrow> real \<Rightarrow> real" where
  "ocena_koncentracije ath_sprememba rang starost_let =
     (let ocena =
            (if ath_sprememba > -20 then 9.0
             else if ath_sprememba > -40 then 8.5
             else if ath_sprememba > -60 then 8.0
             else if ath_sprememba > -75 then 7.5
             else if ath_sprememba > -85 then 7.0
             else if ath_sprememba > -92 then 6.0
             else 5.0)
      in if rang \<le> 10 \<and> starost_let > 5 then max ocena 8.5
         else if rang \<le> 30 \<and> starost_let > 3 then max ocena 8.0
         else if rang \<le> 50 then max ocena 7.5
         else if rang \<le> 100 then max ocena 7.0
         else ocena)"

definition ocena_likvidnosti :: "real \<Rightarrow> real" where
  "ocena_likvidnosti volumen =
     (if volumen > 2000000000 then 9.5
      else if volumen > 1000000000 then 9.0
      else if volumen > 500000000 then 8.5
      else if volumen > 200000000 then 8.0
      else if volumen > 100000000 then 7.5
      else if volumen > 50000000 then 7.0
      else if volumen > 10000000 then 6.5
      else if volumen > 1000000 then 6.0
      else if volumen > 100000 then 5.0
      else 4.0)"

definition volatilnost :: "real \<Rightarrow> real \<Rightarrow> real" where
  "volatilnost sprememba_7d sprememba_30d = (\<bar>sprememba_7d\<bar> + \<bar>sprememba_30d\<bar>) / 2"

definition ocena_manipulacije :: "real \<Rightarrow> real" where
  "ocena_manipulacije v =
     (if v < 5 then 9.0
      else if v < 10 then 8.5
      else if v < 20 then 8.0
      else if v < 35 then 7.0
      else if v < 50 then 6.0
      else 5.0)"

definition ocena_vzdrznosti :: "int \<Rightarrow> real \<Rightarrow> real" where
  "ocena_vzdrznosti rang starost_let =
     (if rang \<le> 10 \<and> starost_let > 5 then 9.5
      else if rang \<le> 30 \<and> starost_let > 3 then 9.0
      else if rang \<le> 50 \<and> starost_let > 2 then 8.5
      else if rang \<le> 100 then 8.0
      else if rang \<le> 200 then 7.5
      else 7.0)"

text \<open>
  The economic readers put \<open>basic_info['market_data']\<close> first for the supplies and the
  all-time-high change, and the markets entry first for the price changes.
\<close>

definition analiziraj_ekonomske :: "int \<Rightarrow> podatki \<Rightarrow> EkonomskeMetrike" where
  "analiziraj_ekonomske danes p =
     (let trzni = market_data p;
          trzni_inf = info_market_data (osnovni p);
          rang = dobi_rang p;
          trzna_kap = dobi_trzno_kap p;
          volumen = dobi_volumen p;
          starost_let =
            starost_let_ekonomske rang (izracunaj_starost danes (genesis_date (osnovni p)));
          max_zaloga = ali (i_max_supply trzni_inf) (m_max_supply trzni);
          v_obtoku =
            ali_privzeto (ali (i_circulating_supply trzni_inf) (m_circulating_supply trzni)) 0;
          ath_sprememba =
            ali_privzeto
              (ali (i_ath_change_percentage_usd trzni_inf) (m_ath_change_percentage trzni))
              (-50);
          sprememba_7d =
            ali_privzeto
              (ali (m_price_change_percentage_7d_in_currency trzni)
                 (i_price_change_percentage_7d trzni_inf)) 0;
          sprememba_30d =
            ali_privzeto
              (ali (m_price_change_percentage_30d_in_currency trzni)
                 (i_price_change_percentage_30d trzni_inf)) 0
      in \<lparr> pravicnost_distribucije =
             ocena_distribucije (razmerje_volumna volumen trzna_kap) rang starost_let,
           mehanizem_inflacije = ocena_inflacije max_zaloga v_obtoku,
           vesting_urnik = ocena_vestinga starost_let,
           koncentracija_lastnistva = ocena_koncentracije ath_sprememba rang starost_let,
           globina_likvidnosti = ocena_likvidnosti volumen,
           indikatorji_manipulacije = ocena_manipulacije (volatilnost sprememba_7d sprememba_30d),
           vzdrznost_tokenomike = ocena_vzdrznosti rang starost_let \<rparr>)"

section \<open>Social analysis\<close>

text \<open>The age block of \<open>analiziraj_socialne\<close>.\<close>

definition starost_let_socialne :: "int \<Rightarrow> real \<Rightarrow> real" where
  "starost_let_socialne rang starost =
     (if starost = 0 then
        (if rang \<le> 10 then 8.0
         else if rang \<le> 20 then 6.0
         else if rang \<le> 50 then 4.0
         else if rang \<le> 100 then 3.0
         else 2.0)
      else starost)"

text \<open>\<open>bool(xs[0]) if xs else False\<close> on a list of strings.\<close>

definition prvi_neprazen :: "string list \<Rightarrow> bool" where
  "prvi_neprazen xs = (case xs of [] \<Rightarrow> False | x # _ \<Rightarrow> x \<noteq> [])"

definition stevilo_kanalov :: "links \<Rightarrow> nat" where
  "stevilo_kanalov l =
     (let ima_domaco = prvi_neprazen (homepage l);
          ima_whitepaper = (whitepaper l \<noteq> []);
          ima_chat = prvi_neprazen (chat_url l);
          ima_forum = prvi_neprazen (official_forum_url l)
      in sum_list (map of_bool [ima_domaco, ima_whitepaper, ima_chat, ima_forum]))"

definition ocena_transparentnosti :: "nat \<Rightarrow> int \<Rightarrow> real \<Rightarrow> real" where
  "ocena_transparentnosti kanali rang starost_let =
     (let ocena =
            (if kanali \<ge> 4 then 9.0
             else if kanali \<ge> 3 then 8.5
             else if kanali \<ge> 2 then 7.5
             else if kanali \<ge> 1 then 6.0
             else 4.0)
      in if rang \<le> 30 \<and> starost_let > 3 then max ocena 8.5 else ocena)"

definition ocena_izkusenj :: "int \<Rightarrow> real \<Rightarrow> real" where
  "ocena_izkusenj rang starost_let =
     (if rang \<le> 10 \<and> starost_let > 5 then 9.5
      else if rang \<le> 20 \<and> starost_let > 4 then 9.0
      else if rang \<le> 30 \<and> starost_let > 3 then 8.5
      else if rang \<le> 50 \<and> starost_let > 2 then 8.0
      else if rang \<le> 100 then 7.5
      else if rang \<le> 200 then 7.0
      else 6.0)"

definition ocena_angaziranosti :: "int \<Rightarrow> int \<Rightarrow> real" where
  "ocena_angaziranosti skupaj_skupnost rang =
     (if skupaj_skupnost > 5000000 then 9.5
      else if skupaj_skupnost > 2000000 then 9.0
      else if skupaj_skupnost > 1000000 then 8.5
      else if skupaj_skupnost > 500000 then 8.0
      else if skupaj_skupnost > 100000 then 7.5
      else if skupaj_skupnost > 50000 then 7.0
      else if skupaj_skupnost > 10000 then 6.0
      else if rang \<le> 10 then 9.0
      else if rang \<le> 30 then 8.5
      else if rang \<le> 50 then 8.0
      else if rang \<le> 100 then 7.5
      else 6.5)"

definition ocena_dokumentacije :: "bool \<Rightarrow> string \<Rightarrow> real" where
  "ocena_dokumentacije ima_whitepaper opis =
     (let ima_opis = (opis \<noteq> []); dolzina_opisa = length opis in
      if ima_whitepaper \<and> dolzina_opisa > 1000 then 9.0
      else if ima_whitepaper \<and> dolzina_opisa > 500 then 8.5
      else if dolzina_opisa > 1000 then 8.0
      else if dolzina_opisa > 500 then 7.5
      else if dolzina_opisa > 200 then 7.0
      else if ima_opis then 6.0
      else 5.0)"

definition ocena_marketinga :: "real \<Rightarrow> real" where
  "ocena_marketinga sentiment =
     (if sentiment > 80 then 9.0
      else if sentiment > 65 then 8.0
      else if sentiment > 50 then 7.0
      else if sentiment > 40 then 6.0
      else 5.0)"

definition ocena_prisotnosti :: "int \<Rightarrow> int \<Rightarrow> int \<Rightarrow> real" where
  "ocena_prisotnosti twitter reddit rang =
     (if twitter > 1000000 \<and> reddit > 100000 then 9.5
      else if twitter > 500000 \<or> reddit > 100000 then 9.0
      else if twitter > 200000 \<or> reddit > 50000 then 8.5
      else if twitter > 100000 \<or> reddit > 20000 then 8.0
      else if twitter > 50000 \<or> reddit > 10000 then 7.5
      else if twitter > 10000 \<or> reddit > 5000 then 7.0
      else if rang \<le> 30 then 8.0
      else if rang \<le> 100 then 7.5
      else 6.5)"

definition ocena_zdravja :: "int \<Rightarrow> int \<Rightarrow> real" where
  "ocena_zdravja reddit_aktivnost rang =
     (if reddit_aktivnost > 10000 then 9.0
      else if reddit_aktivnost > 5000 then 8.5
      else if reddit_aktivnost > 2000 then 8.0
      else if reddit_aktivnost > 1000 then 7.5
      else if reddit_aktivnost > 500 then 7.0
      else if reddit_aktivnost > 100 then 6.5
      else if rang \<le> 20 then 8.5
      else if rang \<le> 50 then 8.0
      else if rang \<le> 100 then 7.5
      else 7.0)"

definition analiziraj_socialne :: "int \<Rightarrow> podatki \<Rightarrow> SocialneMetrike" where
  "analiziraj_socialne danes p =
     (let skup = skupnost (osnovni p);
          pov = povezave (osnovni p);
          sentiment = ali_privzeto (sentiment_votes_up_percentage (osnovni p)) 50;
          rang = dobi_rang p;
          starost_let =
            starost_let_socialne rang (izracunaj_starost danes (genesis_date (osnovni p)));
          twitter = twitter_followers skup;
          reddit = reddit_subscribers skup;
          telegram = telegram_channel_user_count skup;
          skupaj_skupnost = twitter + reddit + telegram;
          opis = (case description_en (osnovni p) of None \<Rightarrow> [] | Some t \<Rightarrow> t)
      in \<lparr> transparentnost_ekipe =
             ocena_transparentnosti (stevilo_kanalov pov) rang starost_let,
           izkusenost_ekipe = ocena_izkusenj rang starost_let,
           kvaliteta_dokumentacije = ocena_dokumentacije (whitepaper pov \<noteq> []) opis,
           angaziranost_skupnosti = ocena_angaziranosti skupaj_skupnost rang,
           pristop_marketinga = ocena_marketinga sentiment,
           prisotnost_na_omrezjih = ocena_prisotnosti twitter reddit rang,
           zdravje_skupnosti = ocena_zdravja (reddit_accounts_active_48h skup) rang \<rparr>)"

section \<open>The registry of known scams\<close>

text \<open>
  One entry of \<open>known_scam_coins\<close>. \<open>None\<close> is a missing key. The registry is the
  dictionary in insertion order, as the second loop of the lookup visits it.
\<close>

record zapis_prevare =
  zp_name :: "string option"
  zp_symbol :: "string option"
  zp_scam_type :: "string option"
  zp_red_flags :: "string list option"
  zp_score :: "real option"
  zp_grade :: "string option"
  zp_description :: "string option"
  zp_collapse_date :: "string option"
  zp_estimated_losses :: "string option"

type_synonym baza = "(string \<times> zapis_prevare) list"

definition niz_ali :: "string option \<Rightarrow> string \<Rightarrow> string" where
  "niz_ali a d = (case a of None \<Rightarrow> d | Some x \<Rightarrow> x)"

text \<open>
  \<open>je_znana_prevara\<close> of the registry returns the pair \<open>(True, entry)\<close> or
  \<open>(False, None)\<close>; the model returns \<open>Some entry\<close> or \<open>None\<close>. The name carries the
  prefix \<open>baza\<close> because the indicators have a field of the same name.
\<close>

fun prvi_kljuc :: "baza \<Rightarrow> string list \<Rightarrow> zapis_prevare option" where
  "prvi_kljuc znane [] = None"
| "prvi_kljuc znane (kljuc # ks) =
     (case map_of znane kljuc of
        Some z \<Rightarrow> Some z
      | None \<Rightarrow> prvi_kljuc znane ks)"

fun po_imenu_ali_simbolu :: "baza \<Rightarrow> string \<Rightarrow> zapis_prevare option" where
  "po_imenu_ali_simbolu [] id_kovanca = None"
| "po_imenu_ali_simbolu ((kljuc, z) # rest) id_kovanca =
     (let ime = lower (niz_ali (zp_name z) []);
          simbol = lower (niz_ali (zp_symbol z) [])
      in if ime = lower id_kovanca \<or> simbol = lower id_kovanca then Some z
         else po_imenu_ali_simbolu rest id_kovanca)"

definition baza_je_znana_prevara :: "baza \<Rightarrow> string \<Rightarrow> zapis_prevare option" where
  "baza_je_znana_prevara znane id_kovanca =
     (let normaliziran =
            replace_char (CHR ''_'') (CHR ''-'')
              (replace_char (CHR '' '') (CHR ''-'') (lower id_kovanca))
      in case prvi_kljuc znane [normaliziran, lower id_kovanca, id_kovanca] of
           Some z \<Rightarrow> Some z
         | None \<Rightarrow> po_imenu_ali_simbolu znane id_kovanca)"

section \<open>Fraud analysis\<close>

record IndikatorjiPrevare =
  je_znana_prevara :: bool
  tip_prevare :: TipPrevare
  verjetnost_prevare :: real
  rdeci_zastavice :: "string list"
  opozorila :: "string list"
  podatki_znane_prevare :: "zapis_prevare option"

definition IndikatorjiPrevare_privzeto :: IndikatorjiPrevare where
  "IndikatorjiPrevare_privzeto =
     \<lparr> je_znana_prevara = False, tip_prevare = NEZNANO, verjetnost_prevare = 0.0,
       rdeci_zastavice = [], opozorila = [], podatki_znane_prevare = None \<rparr>"

definition v_narekovajih :: "string \<Rightarrow> string" where
  "v_narekovajih s = [CHR 0x27] @ s @ [CHR 0x27]"

definition sumljiva_imena :: "string list" where
  "sumljiva_imena =
     [''safe'', ''moon'', ''elon'', ''doge'', ''shiba'', ''inu'', ''baby'', ''mini'',
      ''floki'', ''100x'', ''1000x'', ''rocket'', ''gem'']"

definition rdece_fraze :: "string list" where
  "rdece_fraze =
     [''guaranteed return'', ''risk free'', ''100x'', ''1000x'', ''next bitcoin'',
      ''get rich'', ''passive income'', ''dont miss'', ''don't miss'', ''limited time'']"

text \<open>
  The dynamic analysis threads the point counter \<open>tocke_prevare\<close> and the indicators
  through its blocks; a state is the pair of both.
\<close>

fun preveri_imena ::
  "string \<Rightarrow> string list \<Rightarrow> int \<times> IndikatorjiPrevare \<Rightarrow> int \<times> IndikatorjiPrevare" where
  "preveri_imena ime [] st = st"
| "preveri_imena ime (vzorec # vs) (tocke, ind) =
     preveri_imena ime vs
       (if vsebuje ime vzorec then
          (tocke + 5,
           ind\<lparr>opozorila := opozorila ind @ [''Ime vsebuje hype besedo: '' @ v_narekovajih vzorec]\<rparr>)
        else (tocke, ind))"

fun preveri_fraze ::
  "string \<Rightarrow> string list \<Rightarrow> int \<times> IndikatorjiPrevare \<Rightarrow> int \<times> IndikatorjiPrevare" where
  "preveri_fraze besedilo [] st = st"
| "preveri_fraze besedilo (fraza # fs) (tocke, ind) =
     preveri_fraze besedilo fs
       (if vsebuje besedilo fraza then
          (tocke + 10,
           ind\<lparr>rdeci_zastavice :=
                 rdeci_zastavice ind @ [''Opis vsebuje rdeco zastavo: '' @ v_narekovajih fraza]\<rparr>)
        else (tocke, ind))"

definition preveri_trzno_kap ::
  "int \<Rightarrow> real \<Rightarrow> int \<times> IndikatorjiPrevare \<Rightarrow> int \<times> IndikatorjiPrevare" where
  "preveri_trzno_kap rang trzna_kap st =
     (if rang > 200 then
        (if trzna_kap < 1000000 \<and> trzna_kap > 0 then (fst st + 15, snd st)
         else if trzna_kap < 10000000 \<and> trzna_kap > 0 then (fst st + 8, snd st)
         else st)
      else st)"

definition preveri_padec ::
  "int \<Rightarrow> real \<Rightarrow> int \<times> IndikatorjiPrevare \<Rightarrow> int \<times> IndikatorjiPrevare" where
  "preveri_padec rang ath_sprememba st =
     (if rang > 100 then
        (if ath_sprememba < -99 then
           (fst st + 25,
            (snd st)\<lparr>rdeci_zastavice := rdeci_zastavice (snd st) @ [''Cena padla >99% od ATH'']\<rparr>)
         else if ath_sprememba < -95 then (fst st + 15, snd st)
         else st)
      else st)"

definition preveri_likvidnost ::
  "int \<Rightarrow> real \<Rightarrow> real \<Rightarrow> int \<times> IndikatorjiPrevare \<Rightarrow> int \<times> IndikatorjiPrevare" where
  "preveri_likvidnost rang volumen trzna_kap st =
     (if rang > 100 then
        (if volumen < 1000 \<and> trzna_kap > 0 then
           (fst st + 20,
            (snd st)\<lparr>rdeci_zastavice :=
                      rdeci_zastavice (snd st) @ [''Ekstremno nizek volumen trgovanja'']\<rparr>)
         else if volumen < 10000 \<and> trzna_kap > 0 then (fst st + 10, snd st)
         else st)
      else st)"

text \<open>
  The fraud analysis reads the all-time-high change of \<open>basic_info\<close> only. The
  description is the dictionary with the key \<open>en\<close> that the provider delivers; the
  source's branch for a description that is no dictionary has no input in this model.
\<close>

definition ath_sprememba_prevare :: "podatki \<Rightarrow> real" where
  "ath_sprememba_prevare p =
     ali_privzeto (i_ath_change_percentage_usd (info_market_data (osnovni p))) (-50)"

definition besedilo_opisa :: "podatki \<Rightarrow> string" where
  "besedilo_opisa p = lower (niz_ali (description_en (osnovni p)) [])"

definition ime_projekta :: "podatki \<Rightarrow> string" where
  "ime_projekta p = lower (niz_ali (name (osnovni p)) [])"

text \<open>The state after the five scoring blocks: the points and the flags collected.\<close>

definition tocke_in_zastavice :: "podatki \<Rightarrow> int \<times> IndikatorjiPrevare" where
  "tocke_in_zastavice p =
     (let rang = dobi_rang p;
          trzna_kap = dobi_trzno_kap p;
          volumen = dobi_volumen p
      in preveri_likvidnost rang volumen trzna_kap
           (preveri_padec rang (ath_sprememba_prevare p)
              (preveri_trzno_kap rang trzna_kap
                 (preveri_fraze (besedilo_opisa p) rdece_fraze
                    (preveri_imena (ime_projekta p) sumljiva_imena
                       (0, IndikatorjiPrevare_privzeto))))))"

definition dinamicna_analiza :: "podatki \<Rightarrow> IndikatorjiPrevare" where
  "dinamicna_analiza p =
     (let st = tocke_in_zastavice p;
          verjetnost = min (real_of_int (fst st) / 100) 0.95;
          ind = (snd st)\<lparr>verjetnost_prevare := verjetnost\<rparr>
      in if verjetnost > 0.6 then
           (if ath_sprememba_prevare p < -99 \<and> dobi_volumen p < 10000
              then ind\<lparr>tip_prevare := RUG_PULL\<rparr>
            else if vsebuje (besedilo_opisa p) ''passive income''
                    \<or> vsebuje (besedilo_opisa p) ''guaranteed''
              then ind\<lparr>tip_prevare := SUMLJIVA_PONZI\<rparr>
            else ind\<lparr>tip_prevare := PUMP_AND_DUMP\<rparr>)
         else ind)"

definition analiziraj_prevare :: "baza \<Rightarrow> podatki \<Rightarrow> string \<Rightarrow> IndikatorjiPrevare" where
  "analiziraj_prevare znane p ime_kovanca =
     (case baza_je_znana_prevara znane ime_kovanca of
        Some podatki_prevare \<Rightarrow>
          (let tip_str =
                 replace_char (CHR ''_'') (CHR '' '')
                   (upper (niz_ali (zp_scam_type podatki_prevare) ''unknown''))
           in IndikatorjiPrevare_privzeto
                \<lparr> je_znana_prevara := True,
                  podatki_znane_prevare := Some podatki_prevare,
                  verjetnost_prevare := 1.0,
                  rdeci_zastavice :=
                    (case zp_red_flags podatki_prevare of None \<Rightarrow> [] | Some fl \<Rightarrow> fl),
                  tip_prevare :=
                    (case TipPrevare_of_value tip_str of Some t \<Rightarrow> t | None \<Rightarrow> NEZNANO) \<rparr>)
      | None \<Rightarrow>
          (case baza_je_znana_prevara znane (coin_id p) of
             Some podatki_prevare \<Rightarrow>
               IndikatorjiPrevare_privzeto
                 \<lparr> je_znana_prevara := True,
                   podatki_znane_prevare := Some podatki_prevare,
                   verjetnost_prevare := 1.0,
                   rdeci_zastavice :=
                     (case zp_red_flags podatki_prevare of None \<Rightarrow> [] | Some fl \<Rightarrow> fl) \<rparr>
           | None \<Rightarrow> dinamicna_analiza p))"

section \<open>klasifikator.py\<close>

definition UTEZ_TEHNICNE :: real where "UTEZ_TEHNICNE = 0.40"
definition UTEZ_EKONOMSKE :: real where "UTEZ_EKONOMSKE = 0.35"
definition UTEZ_SOCIALNE :: real where "UTEZ_SOCIALNE = 0.25"

definition doloci_stopnjo :: "real \<Rightarrow> IndikatorjiPrevare \<Rightarrow> StopnjaTveganja" where
  "doloci_stopnjo ocena indikatorji =
     (if je_znana_prevara indikatorji \<or> verjetnost_prevare indikatorji > 0.8 then KRITICNO
      else if ocena \<ge> 85 then ZELO_NIZKO
      else if ocena \<ge> 70 then NIZKO
      else if ocena \<ge> 55 then SREDNJE
      else if ocena \<ge> 40 then VISOKO
      else if ocena \<ge> 25 then ZELO_VISOKO
      else KRITICNO)"

definition je_layer1 :: "string list \<Rightarrow> bool" where
  "je_layer1 kategorije =
     (\<exists>kat \<in> set kategorije.
        vsebuje (lower kat) ''layer 1'' \<or>
        vsebuje (lower kat) ''layer 0'' \<or>
        vsebuje (lower kat) ''layer-1'' \<or>
        vsebuje (lower kat) ''layer-0'' \<or>
        vsebuje (lower kat) ''smart contract platform'' \<or>
        vsebuje (lower kat) ''proof of stake'' \<or>
        vsebuje (lower kat) ''proof of work'')"

definition ima_omrezje :: "string list \<Rightarrow> bool" where
  "ima_omrezje kategorije =
     (\<exists>kat \<in> set kategorije.
        vsebuje (lower kat) ''blockchain'' \<or>
        vsebuje (lower kat) ''protocol'' \<or>
        vsebuje (lower kat) ''infrastructure'' \<or>
        vsebuje (lower kat) ''ecosystem'')"

text \<open>The category reads the rank itself, with the default 10000.\<close>

definition rang_kategorije :: "podatki \<Rightarrow> int" where
  "rang_kategorije p =
     ali_privzeto
       (ali (m_market_cap_rank (market_data p)) (i_market_cap_rank (info_market_data (osnovni p))))
       10000"

definition doloci_kategorijo :: "podatki \<Rightarrow> real \<Rightarrow> KategorijaProjekta" where
  "doloci_kategorijo p ocena =
     (let kategorije = categories (osnovni p);
          rang = rang_kategorije p
      in if je_layer1 kategorije then LAYER_1
         else if ima_omrezje kategorije \<and> rang \<le> 100 \<and> ocena \<ge> 55 then LAYER_1
         else if ocena \<ge> 50 then KVALITETEN_TOKEN
         else PROBLEMATICEN)"

definition doloci_crko :: "real \<Rightarrow> string" where
  "doloci_crko ocena =
     (if ocena \<ge> 93 then ''A+''
      else if ocena \<ge> 85 then ''A''
      else if ocena \<ge> 80 then ''A-''
      else if ocena \<ge> 75 then ''B+''
      else if ocena \<ge> 70 then ''B''
      else if ocena \<ge> 65 then ''B-''
      else if ocena \<ge> 60 then ''C+''
      else if ocena \<ge> 55 then ''C''
      else if ocena \<ge> 50 then ''C-''
      else if ocena \<ge> 45 then ''D+''
      else if ocena \<ge> 40 then ''D''
      else if ocena \<ge> 35 then ''D-''
      else ''F'')"

text \<open>
  One \<open>if \<dots> >= a: prednosti.append(..) elif \<dots> < b: slabosti.append(..)\<close> step of
  \<open>_analiziraj_prednosti_slabosti\<close>, on the pair of both lists.
\<close>

definition presodi ::
  "real \<Rightarrow> real \<Rightarrow> string \<Rightarrow> real \<Rightarrow> string \<Rightarrow> string list \<times> string list
     \<Rightarrow> string list \<times> string list" where
  "presodi v prag_prednosti prednost prag_slabosti slabost ps =
     (if v \<ge> prag_prednosti then (fst ps @ [prednost], snd ps)
      else if v < prag_slabosti then (fst ps, snd ps @ [slabost])
      else ps)"

definition presodi_prevare :: "real \<Rightarrow> string list \<times> string list \<Rightarrow> string list \<times> string list" where
  "presodi_prevare v ps =
     (if v > 0.5 then (fst ps, snd ps @ [''Visoka verjetnost prevare''])
      else if v > 0.3 then (fst ps, snd ps @ [''Nekateri indikatorji prevare''])
      else if v < 0.1 then (fst ps @ [''Nizka verjetnost prevare''], snd ps)
      else ps)"

definition analiziraj_prednosti_slabosti ::
  "TehnicneMetrike \<Rightarrow> EkonomskeMetrike \<Rightarrow> SocialneMetrike \<Rightarrow> IndikatorjiPrevare
     \<Rightarrow> string list \<times> string list" where
  "analiziraj_prednosti_slabosti teh eko soc ind =
     (let ps =
        (presodi_prevare (verjetnost_prevare ind)
        (presodi (kvaliteta_dokumentacije soc) 8 ''Obsezna dokumentacija'' 5
           ''Pomanjkljiva dokumentacija''
        (presodi (transparentnost_ekipe soc) 8 ''Transparentna ekipa'' 5 ''Netransparentna ekipa''
        (presodi (angaziranost_skupnosti soc) 8 ''Velika in aktivna skupnost'' 5 ''Majhna skupnost''
        (presodi (indikatorji_manipulacije eko) 8 ''Nizka volatilnost'' 4
           ''Visoka volatilnost - mozna manipulacija''
        (presodi (koncentracija_lastnistva eko) 8 ''Dobra distribucija lastnistva'' 5
           ''Visoka koncentracija lastnistva''
        (presodi (vzdrznost_tokenomike eko) 8 ''Vzdrzna tokenomika'' 5 ''Vprasljiva tokenomika''
        (presodi (globina_likvidnosti eko) 8.5 ''Odlicna likvidnost'' 5 ''Nizka likvidnost''
        (presodi (varnostni_mehanizmi teh) 8.5 ''Odlicni varnostni mehanizmi'' 5
           ''Pomanjkljivi varnostni mehanizmi''
        (presodi (decentralizacija teh) 8 ''Visoka stopnja decentralizacije'' 5
           ''Vprasljiva decentralizacija''
        (presodi (kvaliteta_arhitekture teh) 8 ''Mocna razvojna aktivnost'' 5
           ''Pomanjkljiva razvojna aktivnost''
        (presodi (dostopnost_kode teh) 8 ''Odprta koda'' 5 ''Omejena dostopnost kode''
           ([], [])))))))))))))
      in (take 7 (fst ps), take 7 (snd ps)))"

text \<open>
  The local variables of \<open>klasificiraj\<close> once the three analyses are done: the axis
  scores, the final score \<open>koncna\<close> with the fraud penalty applied, and what is derived
  from it.
\<close>

record ocenjevanje =
  tehnicne :: TehnicneMetrike
  ekonomske :: EkonomskeMetrike
  socialne :: SocialneMetrike
  ocena_teh :: real
  ocena_eko :: real
  ocena_soc :: real
  koncna :: real
  stopnja :: StopnjaTveganja
  kategorija :: KategorijaProjekta
  crka :: string
  prednosti :: "string list"
  slabosti :: "string list"

definition utezena_vsota :: "real \<Rightarrow> real \<Rightarrow> real \<Rightarrow> real" where
  "utezena_vsota t e s = t * UTEZ_TEHNICNE + e * UTEZ_EKONOMSKE + s * UTEZ_SOCIALNE"

definition popravek_prevare :: "real \<Rightarrow> IndikatorjiPrevare \<Rightarrow> real" where
  "popravek_prevare k indikatorji =
     (if verjetnost_prevare indikatorji > 0
        then k * (1 - verjetnost_prevare indikatorji * 0.5)
      else k)"

definition oceni :: "int \<Rightarrow> podatki \<Rightarrow> IndikatorjiPrevare \<Rightarrow> ocenjevanje" where
  "oceni danes p indikatorji =
     (let teh = analiziraj_tehnicne danes p;
          eko = analiziraj_ekonomske danes p;
          soc = analiziraj_socialne danes p;
          o_teh = izracunaj_oceno_teh teh;
          o_eko = izracunaj_oceno_eko eko;
          o_soc = izracunaj_oceno_soc soc;
          k = popravek_prevare (utezena_vsota o_teh o_eko o_soc) indikatorji;
          ps = analiziraj_prednosti_slabosti teh eko soc indikatorji
      in \<lparr> tehnicne = teh, ekonomske = eko, socialne = soc,
           ocena_teh = o_teh, ocena_eko = o_eko, ocena_soc = o_soc,
           koncna = k,
           stopnja = doloci_stopnjo k indikatorji,
           kategorija = doloci_kategorijo p k,
           crka = doloci_crko k,
           prednosti = fst ps, slabosti = snd ps \<rparr>)"

subsection \<open>Reports\<close>

text \<open>A report is a dictionary; \<open>Nic\<close> is Python's \<open>None\<close>.\<close>

datatype vrednost =
  Niz string | Stevilo real | Logicna bool | Seznam "string list"
  | Slovar "(string \<times> real) list" | Nic

type_synonym porocilo = "(string \<times> vrednost) list"

text \<open>
  \<open>round(x, n)\<close> on the exact real: to the nearest multiple of \<open>10^-n\<close>, a tie going
  to the even one.
\<close>

definition zaokrozi :: "real \<Rightarrow> nat \<Rightarrow> real" where
  "zaokrozi x n =
     (let y = x * 10 ^ n;
          f = \<lfloor>y\<rfloor>;
          d = y - of_int f
      in (if d < 1 / 2 then of_int f
          else if d > 1 / 2 then of_int (f + 1)
          else if even f then of_int f
          else of_int (f + 1)) / 10 ^ n)"

definition v_slovar_teh :: "TehnicneMetrike \<Rightarrow> vrednost" where
  "v_slovar_teh m =
     Slovar [(''dostopnost_kode'', dostopnost_kode m),
             (''kvaliteta_arhitekture'', kvaliteta_arhitekture m),
             (''decentralizacija'', decentralizacija m),
             (''varnostni_mehanizmi'', varnostni_mehanizmi m),
             (''status_revizije'', status_revizije m),
             (''tveganje_pogodbe'', tveganje_pogodbe m)]"

definition v_slovar_eko :: "EkonomskeMetrike \<Rightarrow> vrednost" where
  "v_slovar_eko m =
     Slovar [(''pravicnost_distribucije'', pravicnost_distribucije m),
             (''mehanizem_inflacije'', mehanizem_inflacije m),
             (''vesting_urnik'', vesting_urnik m),
             (''koncentracija_lastnistva'', koncentracija_lastnistva m),
             (''globina_likvidnosti'', globina_likvidnosti m),
             (''indikatorji_manipulacije'', indikatorji_manipulacije m),
             (''vzdrznost_tokenomike'', vzdrznost_tokenomike m)]"

definition v_slovar_soc :: "SocialneMetrike \<Rightarrow> vrednost" where
  "v_slovar_soc m =
     Slovar [(''transparentnost_ekipe'', transparentnost_ekipe m),
             (''izkusenost_ekipe'', izkusenost_ekipe m),
             (''kvaliteta_dokumentacije'', kvaliteta_dokumentacije m),
             (''angaziranost_skupnosti'', angaziranost_skupnosti m),
             (''pristop_marketinga'', pristop_marketinga m),
             (''prisotnost_na_omrezjih'', prisotnost_na_omrezjih m),
             (''zdravje_skupnosti'', zdravje_skupnosti m)]"

definition niz_ali_nic :: "string option \<Rightarrow> vrednost" where
  "niz_ali_nic a = (case a of None \<Rightarrow> Nic | Some x \<Rightarrow> Niz x)"

text \<open>
  \<open>_ustvari_porocilo_prevare\<close>: the report of a known scam. It reads the registry entry
  kept in the indicators and nothing of the payload; \<open>cas\<close> is the time stamp.
\<close>

definition ustvari_porocilo_prevare ::
  "string \<Rightarrow> string \<Rightarrow> string \<Rightarrow> zapis_prevare \<Rightarrow> porocilo" where
  "ustvari_porocilo_prevare cas ime simbol podatki_prevare =
     [(''ime'', Niz ime),
      (''simbol'', Niz simbol),
      (''koncna_ocena'', Stevilo (case zp_score podatki_prevare of None \<Rightarrow> 0 | Some x \<Rightarrow> x)),
      (''ocena_crka'', Niz (niz_ali (zp_grade podatki_prevare) ''F'')),
      (''stopnja_tveganja'', Niz ''CRITICAL''),
      (''kategorija'', Niz ''KNOWN_SCAM''),
      (''je_potrjena_prevara'', Logicna True),
      (''tip_prevare'', Niz (niz_ali (zp_scam_type podatki_prevare) ''Unknown'')),
      (''rdeci_zastavice'',
         Seznam (case zp_red_flags podatki_prevare of None \<Rightarrow> [] | Some fl \<Rightarrow> fl)),
      (''opis_prevare'', Niz (niz_ali (zp_description podatki_prevare) [])),
      (''datum_propada'', niz_ali_nic (zp_collapse_date podatki_prevare)),
      (''ocenjene_izgube'', niz_ali_nic (zp_estimated_losses podatki_prevare)),
      (''opozorila'', Seznam [''OPOZORILO: Ta projekt je potrjena prevara. Izogibajte se!'']),
      (''cas_analize'', Niz cas)]"

text \<open>The report of a scored project, the dictionary \<open>klasificiraj\<close> returns last.\<close>

definition porocilo_ocene ::
  "string \<Rightarrow> string \<Rightarrow> string \<Rightarrow> ocenjevanje \<Rightarrow> IndikatorjiPrevare \<Rightarrow> porocilo" where
  "porocilo_ocene cas ime simbol oc indikatorji =
     [(''ime'', Niz ime),
      (''simbol'', Niz simbol),
      (''koncna_ocena'', Stevilo (zaokrozi (koncna oc) 2)),
      (''ocena_crka'', Niz (crka oc)),
      (''stopnja_tveganja'', Niz (StopnjaTveganja_value (stopnja oc))),
      (''kategorija'', Niz (KategorijaProjekta_value (kategorija oc))),
      (''tehnicna_ocena'', Stevilo (zaokrozi (ocena_teh oc) 2)),
      (''ekonomska_ocena'', Stevilo (zaokrozi (ocena_eko oc) 2)),
      (''socialna_ocena'', Stevilo (zaokrozi (ocena_soc oc) 2)),
      (''tehnicne_metrike'', v_slovar_teh (tehnicne oc)),
      (''ekonomske_metrike'', v_slovar_eko (ekonomske oc)),
      (''socialne_metrike'', v_slovar_soc (socialne oc)),
      (''verjetnost_prevare'', Stevilo (zaokrozi (verjetnost_prevare indikatorji * 100) 1)),
      (''opozorila'', Seznam (opozorila indikatorji)),
      (''rdeci_zastavice'', Seznam (rdeci_zastavice indikatorji)),
      (''prednosti'', Seznam (prednosti oc)),
      (''slabosti'', Seznam (slabosti oc)),
      (''cas_analize'', Niz cas)]"

subsection \<open>Classification\<close>

datatype izjema = ValueError string | RuntimeError string | AttributeError string

fun str_izjema :: "izjema \<Rightarrow> string" where
  "str_izjema (ValueError s) = s"
| "str_izjema (RuntimeError s) = s"
| "str_izjema (AttributeError s) = s"

text \<open>
  The data provider is outside the classifier: \<open>klient ident\<close> is what
  \<open>pridobi_podatke_kovanca\<close> does for an identifier, an exception or a payload
  (\<open>None\<close> for an empty one). The clock gives the day \<open>danes\<close> and the time stamp \<open>cas\<close>.
  Indicators that say known scam always carry the registry entry; reading the entry of
  indicators without one would be Python's AttributeError on \<open>None\<close>.
\<close>

type_synonym klient = "string \<Rightarrow> izjema + podatki option"

definition klasificiraj :: "baza \<Rightarrow> klient \<Rightarrow> int \<Rightarrow> string \<Rightarrow> string \<Rightarrow> izjema + porocilo" where
  "klasificiraj znane kl danes cas identifikator =
     (case baza_je_znana_prevara znane identifikator of
        Some podatki_prevare \<Rightarrow>
          Inr (ustvari_porocilo_prevare cas
                 (niz_ali (zp_name podatki_prevare) identifikator)
                 (upper (niz_ali (zp_symbol podatki_prevare) ''???''))
                 podatki_prevare)
      | None \<Rightarrow>
          (case kl identifikator of
             Inl e \<Rightarrow> Inl e
           | Inr None \<Rightarrow>
               Inl (ValueError (''Kovanec '' @ v_narekovajih identifikator
                                  @ '' ni najden na CoinGecko''))
           | Inr (Some p) \<Rightarrow>
               (let ime = niz_ali (name (osnovni p)) identifikator;
                    simbol = upper (niz_ali (symbol (osnovni p)) ''???'');
                    indikatorji = analiziraj_prevare znane p ime
                in if je_znana_prevara indikatorji then
                     (case podatki_znane_prevare indikatorji of
                        Some podatki_prevare \<Rightarrow>
                          Inr (ustvari_porocilo_prevare cas ime simbol podatki_prevare)
                      | None \<Rightarrow> Inl (AttributeError ''NoneType''))
                   else Inr (porocilo_ocene cas ime simbol (oceni danes p indikatorji)
                               indikatorji))))"

text \<open>
  \<open>batch_analiziraj\<close>: the loop over the identifiers, appending to \<open>rezultati\<close> either the
  report or the error record with the identifier and the text of the exception. The
  progress lines it prints are left out.
\<close>

fun batch_zanka ::
  "baza \<Rightarrow> klient \<Rightarrow> int \<Rightarrow> string \<Rightarrow> string list \<Rightarrow> porocilo list \<Rightarrow> porocilo list" where
  "batch_zanka znane kl danes cas [] rezultati = rezultati"
| "batch_zanka znane kl danes cas (ident # rest) rezultati =
     batch_zanka znane kl danes cas rest
       (case klasificiraj znane kl danes cas ident of
          Inr rezultat \<Rightarrow> rezultati @ [rezultat]
        | Inl e \<Rightarrow> rezultati @ [[(''ime'', Niz ident), (''napaka'', Niz (str_izjema e))]])"

definition batch_analiziraj ::
  "baza \<Rightarrow> klient \<Rightarrow> int \<Rightarrow> string \<Rightarrow> string list \<Rightarrow> porocilo list" where
  "batch_analiziraj znane kl danes cas identifikatorji =
     batch_zanka znane kl danes cas identifikatorji []"

section \<open>The fraud points as the specification words them\<close>

text \<open>
  The specification's wording of the dynamic heuristic, for comparison with the code:
  +5 per hype token in the name, +10 per suspicious phrase in the description, for
  rank above 200 +15 if the market cap lies strictly between 0 and 1M, else +8 if it is
  below 10M, for rank above 100 +25 if the all-time-high change is below -99, else +15 if
  below -95, and for rank above 100 +20 if the volume is below 1000, else +10 if below
  10000.
\<close>

definition tocke_po_specifikaciji :: "podatki \<Rightarrow> int" where
  "tocke_po_specifikaciji p =
     5 * int (length (filter (vsebuje (ime_projekta p)) sumljiva_imena))
     + 10 * int (length (filter (vsebuje (besedilo_opisa p)) rdece_fraze))
     + (if dobi_rang p > 200 then
          (if 0 < dobi_trzno_kap p \<and> dobi_trzno_kap p < 1000000 then 15
           else if dobi_trzno_kap p < 10000000 then 8 else 0)
        else 0)
     + (if dobi_rang p > 100 then
          (if ath_sprememba_prevare p < -99 then 25
           else if ath_sprememba_prevare p < -95 then 15 else 0)
        else 0)
     + (if dobi_rang p > 100 then
          (if dobi_volumen p < 1000 then 20
           else if dobi_volumen p < 10000 then 10 else 0)
        else 0)"

section \<open>Example inputs\<close>

definition prazni_trzni :: trzni_podatki where
  "prazni_trzni =
     \<lparr> m_market_cap_rank = None, m_market_cap = None, m_total_volume = None,
       m_max_supply = None, m_circulating_supply = None, m_ath_change_percentage = None,
       m_price_change_percentage_7d_in_currency = None,
       m_price_change_percentage_30d_in_currency = None \<rparr>"

definition prazni_info :: trzni_info where
  "prazni_info =
     \<lparr> i_market_cap_rank = None, i_market_cap_usd = None, i_total_volume_usd = None,
       i_max_supply = None, i_circulating_supply = None, i_ath_change_percentage_usd = None,
       i_price_change_percentage_7d = None, i_price_change_percentage_30d = None \<rparr>"

definition prazni_osnovni :: basic_info where
  "prazni_osnovni =
     \<lparr> name = None, symbol = None, genesis_date = None,
       developer = \<lparr> stars = 0, forks = 0, commit_count_4_weeks = 0 \<rparr>,
       povezave = \<lparr> repos_url_github = [], blockchain_site = [], homepage = [],
                    whitepaper = [], chat_url = [], official_forum_url = [] \<rparr>,
       skupnost = \<lparr> twitter_followers = 0, reddit_subscribers = 0,
                    telegram_channel_user_count = 0, reddit_accounts_active_48h = 0 \<rparr>,
       categories = [], sentiment_votes_up_percentage = None, description_en = None,
       info_market_data = prazni_info \<rparr>"

text \<open>A payload with nothing but the rank, which the provider always delivers.\<close>

definition podatki_z_rangom :: "int \<Rightarrow> podatki" where
  "podatki_z_rangom r =
     \<lparr> osnovni = prazni_osnovni,
       market_data = prazni_trzni\<lparr>m_market_cap_rank := Some r\<rparr>,
       coin_id = ''primer'' \<rparr>"

text \<open>
  Scenario C of the specification: rank 5000, market cap 50000, volume 200, a description
  with "guaranteed return", an all-time-high change of -99.5.
\<close>

definition primer_C :: podatki where
  "primer_C =
     \<lparr> osnovni = prazni_osnovni
         \<lparr> name := Some ''Primer'',
           symbol := Some ''prm'',
           description_en := Some ''A Guaranteed Return for all holders'',
           info_market_data := prazni_info\<lparr>i_ath_change_percentage_usd := Some (-99.5)\<rparr> \<rparr>,
       market_data = prazni_trzni
         \<lparr> m_market_cap_rank := Some 5000,
           m_market_cap := Some 50000,
           m_total_volume := Some 200 \<rparr>,
       coin_id = ''primer'' \<rparr>"

text \<open>The payload of rank \<open>r\<close> with the volume \<open>v\<close> in the markets entry.\<close>

definition podatki_z_volumnom :: "int \<Rightarrow> real \<Rightarrow> podatki" where
  "podatki_z_volumnom r v =
     (podatki_z_rangom r)
       \<lparr>market_data := prazni_trzni\<lparr>m_market_cap_rank := Some r, m_total_volume := Some v\<rparr>\<rparr>"

text \<open>A layer-1 project of rank 1, and a registry with one entry.\<close>

definition primer_L1 :: podatki where
  "primer_L1 =
     (podatki_z_rangom 1)\<lparr>osnovni := prazni_osnovni\<lparr>categories := [''Layer 1 (L1)'']\<rparr>\<rparr>"

definition primer_zapis :: zapis_prevare where
  "primer_zapis =
     \<lparr> zp_name = Some ''Squid Game'', zp_symbol = Some ''squid'',
       zp_scam_type = Some ''rug_pull'', zp_red_flags = Some [''Anti-sell mechanism''],
       zp_score = Some 0, zp_grade = Some ''F'', zp_description = None,
       zp_collapse_date = None, zp_estimated_losses = None \<rparr>"

definition primer_baza :: baza where
  "primer_baza = [(''squid-game'', primer_zapis)]"

definition primer_klient :: klient where
  "primer_klient ident =
     (if ident = ''primer'' then Inr (Some primer_C)
      else Inl (ValueError (''Kovanec '' @ v_narekovajih ident @ '' ni najden'')))"

text \<open>The range of a sub-score.\<close>

definition v_mejah :: "real \<Rightarrow> bool" where
  "v_mejah s = (0 \<le> s \<and> s \<le> 10)"

section \<open>Properties of the scoring pipeline\<close>

subsection \<open>What \<open>klasificiraj\<close> derives from the final score\<close>

lemma stopnja_oceni:
  "stopnja (oceni danes p ind) = doloci_stopnjo (koncna (oceni danes p ind)) ind"
  by (simp add: oceni_def Let_def)

lemma kategorija_oceni:
  "kategorija (oceni danes p ind) = doloci_kategorijo p (koncna (oceni danes p ind))"
  by (simp add: oceni_def Let_def)

lemma osi_oceni:
  "ocena_teh (oceni danes p ind) = izracunaj_oceno_teh (analiziraj_tehnicne danes p)"
  "ocena_eko (oceni danes p ind) = izracunaj_oceno_eko (analiziraj_ekonomske danes p)"
  "ocena_soc (oceni danes p ind) = izracunaj_oceno_soc (analiziraj_socialne danes p)"
  "tehnicne (oceni danes p ind) = analiziraj_tehnicne danes p"
  "ekonomske (oceni danes p ind) = analiziraj_ekonomske danes p"
  "socialne (oceni danes p ind) = analiziraj_socialne danes p"
  by (simp_all add: oceni_def Let_def)

lemma koncna_oceni:
  "koncna (oceni danes p ind) =
     popravek_prevare
       (utezena_vsota (izracunaj_oceno_teh (analiziraj_tehnicne danes p))
          (izracunaj_oceno_eko (analiziraj_ekonomske danes p))
          (izracunaj_oceno_soc (analiziraj_socialne danes p))) ind"
  by (simp add: oceni_def Let_def)

text \<open>
  C1. In every classification that reaches the scoring (no registry hit), the final score
  is 0.40 times the technical axis plus 0.35 times the economic axis plus 0.25 times the
  social axis, each axis being ten times the weighted sum of its sub-scores, multiplied by
  1 - 0.5 * probability when the fraud probability is positive and left as it is when the
  probability is 0. The score is the variable \<open>koncna\<close>; the report shows it rounded to two
  decimals.
\<close>

theorem C1_koncna_ocena:
  "koncna (oceni danes p ind) =
     (0.40 * ocena_teh (oceni danes p ind) + 0.35 * ocena_eko (oceni danes p ind)
        + 0.25 * ocena_soc (oceni danes p ind))
     * (if verjetnost_prevare ind > 0 then 1 - 0.5 * verjetnost_prevare ind else 1)
   \<and> ocena_teh (oceni danes p ind) =
       (let m = tehnicne (oceni danes p ind) in
        (0.15 * dostopnost_kode m + 0.18 * kvaliteta_arhitekture m + 0.22 * decentralizacija m
         + 0.22 * varnostni_mehanizmi m + 0.13 * status_revizije m + 0.10 * tveganje_pogodbe m)
        * 10)
   \<and> ocena_eko (oceni danes p ind) =
       (let m = ekonomske (oceni danes p ind) in
        (0.18 * pravicnost_distribucije m + 0.12 * mehanizem_inflacije m + 0.15 * vesting_urnik m
         + 0.20 * koncentracija_lastnistva m + 0.15 * globina_likvidnosti m
         + 0.12 * indikatorji_manipulacije m + 0.08 * vzdrznost_tokenomike m) * 10)
   \<and> ocena_soc (oceni danes p ind) =
       (let m = socialne (oceni danes p ind) in
        (0.22 * transparentnost_ekipe m + 0.18 * izkusenost_ekipe m
         + 0.18 * kvaliteta_dokumentacije m + 0.15 * angaziranost_skupnosti m
         + 0.10 * pristop_marketinga m + 0.08 * prisotnost_na_omrezjih m
         + 0.09 * zdravje_skupnosti m) * 10)"
proof -
  have k: "koncna (oceni danes p ind) =
     (0.40 * ocena_teh (oceni danes p ind) + 0.35 * ocena_eko (oceni danes p ind)
        + 0.25 * ocena_soc (oceni danes p ind))
     * (if verjetnost_prevare ind > 0 then 1 - 0.5 * verjetnost_prevare ind else 1)"
    by (simp add: koncna_oceni osi_oceni popravek_prevare_def utezena_vsota_def
        UTEZ_TEHNICNE_def UTEZ_EKONOMSKE_def UTEZ_SOCIALNE_def algebra_simps)
  have t: "ocena_teh (oceni danes p ind) =
       (let m = tehnicne (oceni danes p ind) in
        (0.15 * dostopnost_kode m + 0.18 * kvaliteta_arhitekture m + 0.22 * decentralizacija m
         + 0.22 * varnostni_mehanizmi m + 0.13 * status_revizije m + 0.10 * tveganje_pogodbe m)
        * 10)"
    by (simp add: osi_oceni izracunaj_oceno_teh_def Let_def algebra_simps)
  have e: "ocena_eko (oceni danes p ind) =
       (let m = ekonomske (oceni danes p ind) in
        (0.18 * pravicnost_distribucije m + 0.12 * mehanizem_inflacije m + 0.15 * vesting_urnik m
         + 0.20 * koncentracija_lastnistva m + 0.15 * globina_likvidnosti m
         + 0.12 * indikatorji_manipulacije m + 0.08 * vzdrznost_tokenomike m) * 10)"
    by (simp add: osi_oceni izracunaj_oceno_eko_def Let_def algebra_simps)
  have s: "ocena_soc (oceni danes p ind) =
       (let m = socialne (oceni danes p ind) in
        (0.22 * transparentnost_ekipe m + 0.18 * izkusenost_ekipe m
         + 0.18 * kvaliteta_dokumentacije m + 0.15 * angaziranost_skupnosti m
         + 0.10 * pristop_marketinga m + 0.08 * prisotnost_na_omrezjih m
         + 0.09 * zdravje_skupnosti m) * 10)"
    by (simp add: osi_oceni izracunaj_oceno_soc_def Let_def algebra_simps)
  from k t e s show ?thesis by blast
qed

text \<open>
  C4. The risk tier of a classification is the critical one whenever the project is a
  known scam or the fraud probability exceeds 0.8, whatever the score; otherwise the
  bands of the final score alone decide: from 85 very low, from 70 low, from 55 moderate,
  from 40 high, from 25 very high, below that critical.
\<close>

theorem C4_stopnja_tveganja:
  "(je_znana_prevara ind \<or> verjetnost_prevare ind > 0.8
      \<longrightarrow> stopnja (oceni danes p ind) = KRITICNO \<and> doloci_stopnjo ocena ind = KRITICNO) \<and>
   (\<not> je_znana_prevara ind \<and> \<not> verjetnost_prevare ind > 0.8
      \<longrightarrow> stopnja (oceni danes p ind) =
           (let k = koncna (oceni danes p ind) in
            if k \<ge> 85 then ZELO_NIZKO
            else if k \<ge> 70 then NIZKO
            else if k \<ge> 55 then SREDNJE
            else if k \<ge> 40 then VISOKO
            else if k \<ge> 25 then ZELO_VISOKO
            else KRITICNO)
          \<and> doloci_stopnjo ocena ind =
           (if ocena \<ge> 85 then ZELO_NIZKO
            else if ocena \<ge> 70 then NIZKO
            else if ocena \<ge> 55 then SREDNJE
            else if ocena \<ge> 40 then VISOKO
            else if ocena \<ge> 25 then ZELO_VISOKO
            else KRITICNO))"
  unfolding stopnja_oceni by (simp add: doloci_stopnjo_def Let_def)

theorem C4_stopnja_tveganja_witness:
  "verjetnost_prevare (IndikatorjiPrevare_privzeto\<lparr>verjetnost_prevare := 0.9\<rparr>) > 0.8
   \<and> stopnja (oceni 0 primer_L1 (IndikatorjiPrevare_privzeto\<lparr>verjetnost_prevare := 0.9\<rparr>))
       = KRITICNO
   \<and> \<not> je_znana_prevara (dinamicna_analiza primer_L1)
   \<and> \<not> verjetnost_prevare (dinamicna_analiza primer_L1) > 0.8
   \<and> koncna (oceni 0 primer_L1 (dinamicna_analiza primer_L1)) = 80.5025
   \<and> stopnja (oceni 0 primer_L1 (dinamicna_analiza primer_L1)) = NIZKO"
proof -
  let ?i = "IndikatorjiPrevare_privzeto\<lparr>verjetnost_prevare := 0.9\<rparr>"
  let ?d = "dinamicna_analiza primer_L1"
  have a: "verjetnost_prevare ?i > 0.8"
    by (simp add: IndikatorjiPrevare_privzeto_def)
  have b: "\<not> je_znana_prevara ?d \<and> \<not> verjetnost_prevare ?d > 0.8"
    by code_simp
  have c: "koncna (oceni 0 primer_L1 ?d) = 80.5025"
    by code_simp
  from a C4_stopnja_tveganja [where ind = ?i and danes = 0 and p = primer_L1 and ocena = 0]
  have d: "stopnja (oceni 0 primer_L1 ?i) = KRITICNO"
    by blast
  from b C4_stopnja_tveganja [where ind = ?d and danes = 0 and p = primer_L1 and ocena = 0]
  have "stopnja (oceni 0 primer_L1 ?d) =
           (let k = koncna (oceni 0 primer_L1 ?d) in
            if k \<ge> 85 then ZELO_NIZKO
            else if k \<ge> 70 then NIZKO
            else if k \<ge> 55 then SREDNJE
            else if k \<ge> 40 then VISOKO
            else if k \<ge> 25 then ZELO_VISOKO
            else KRITICNO)"
    by blast
  then have e: "stopnja (oceni 0 primer_L1 ?d) = NIZKO"
    by (simp add: c Let_def)
  from a b c d e show ?thesis by blast
qed

text \<open>
  C7. The category of a scored project is layer 1 if a category label contains one of the
  layer-1, layer-0, smart-contract-platform, proof-of-stake or proof-of-work patterns;
  otherwise layer 1 if a label contains an infrastructure-like word, the rank is at most
  100 and the final score at least 55; otherwise quality token if the final score is at
  least 50; otherwise problematic.
\<close>

theorem C7_kategorija:
  "kategorija (oceni danes p ind) =
     (if \<exists>kat \<in> set (categories (osnovni p)).
           \<exists>vzorec \<in> set [''layer 1'', ''layer 0'', ''layer-1'', ''layer-0'',
                            ''smart contract platform'', ''proof of stake'', ''proof of work''].
             vsebuje (lower kat) vzorec
        then LAYER_1
      else if (\<exists>kat \<in> set (categories (osnovni p)).
                 \<exists>vzorec \<in> set [''blockchain'', ''protocol'', ''infrastructure'', ''ecosystem''].
                   vsebuje (lower kat) vzorec)
              \<and> rang_kategorije p \<le> 100 \<and> koncna (oceni danes p ind) \<ge> 55
        then LAYER_1
      else if koncna (oceni danes p ind) \<ge> 50 then KVALITETEN_TOKEN
      else PROBLEMATICEN)"
  unfolding kategorija_oceni
  by (simp add: doloci_kategorijo_def je_layer1_def ima_omrezje_def Let_def)

subsection \<open>Ranges of the scores\<close>

text \<open>Every ladder yields one of its constants, all between 4 and 9.5.\<close>

lemma ocena_kode_meje: "4 \<le> ocena_kode l \<and> ocena_kode l \<le> 9.5"
  by (simp add: ocena_kode_def)

lemma ocena_arhitekture_meje:
  "4 \<le> ocena_arhitekture r rang s \<and> ocena_arhitekture r rang s \<le> 9.5"
  by (simp add: ocena_arhitekture_def Let_def)

lemma ocena_decentralizacije_meje:
  "4 \<le> ocena_decentralizacije rang s \<and> ocena_decentralizacije rang s \<le> 9.5"
  by (simp add: ocena_decentralizacije_def)

lemma ocena_varnosti_meje: "4 \<le> ocena_varnosti rang \<and> ocena_varnosti rang \<le> 9.5"
  by (simp add: ocena_varnosti_def)

lemma ocena_revizije_meje: "4 \<le> ocena_revizije rang s \<and> ocena_revizije rang s \<le> 9.5"
  by (simp add: ocena_revizije_def)

lemma ocena_pogodbe_meje: "4 \<le> ocena_pogodbe k rang s \<and> ocena_pogodbe k rang s \<le> 9.5"
  by (simp add: ocena_pogodbe_def)

lemma ocena_distribucije_meje:
  "4 \<le> ocena_distribucije x rang s \<and> ocena_distribucije x rang s \<le> 9.5"
  by (simp add: ocena_distribucije_def Let_def)

lemma ocena_inflacije_meje: "4 \<le> ocena_inflacije m v \<and> ocena_inflacije m v \<le> 9.5"
  by (simp add: ocena_inflacije_def Let_def split: option.split)

lemma ocena_vestinga_meje: "4 \<le> ocena_vestinga s \<and> ocena_vestinga s \<le> 9.5"
  by (simp add: ocena_vestinga_def)

lemma ocena_koncentracije_meje:
  "4 \<le> ocena_koncentracije a rang s \<and> ocena_koncentracije a rang s \<le> 9.5"
  by (simp add: ocena_koncentracije_def Let_def)

lemma ocena_likvidnosti_meje: "4 \<le> ocena_likvidnosti v \<and> ocena_likvidnosti v \<le> 9.5"
  by (simp add: ocena_likvidnosti_def)

lemma ocena_manipulacije_meje: "4 \<le> ocena_manipulacije v \<and> ocena_manipulacije v \<le> 9.5"
  by (simp add: ocena_manipulacije_def)

lemma ocena_vzdrznosti_meje: "4 \<le> ocena_vzdrznosti rang s \<and> ocena_vzdrznosti rang s \<le> 9.5"
  by (simp add: ocena_vzdrznosti_def)

lemma ocena_transparentnosti_meje:
  "4 \<le> ocena_transparentnosti k rang s \<and> ocena_transparentnosti k rang s \<le> 9.5"
  by (simp add: ocena_transparentnosti_def Let_def)

lemma ocena_izkusenj_meje: "4 \<le> ocena_izkusenj rang s \<and> ocena_izkusenj rang s \<le> 9.5"
  by (simp add: ocena_izkusenj_def)

lemma ocena_angaziranosti_meje:
  "4 \<le> ocena_angaziranosti k rang \<and> ocena_angaziranosti k rang \<le> 9.5"
  by (simp add: ocena_angaziranosti_def)

lemma ocena_dokumentacije_meje:
  "4 \<le> ocena_dokumentacije w opis \<and> ocena_dokumentacije w opis \<le> 9.5"
  by (simp add: ocena_dokumentacije_def Let_def)

lemma ocena_marketinga_meje: "4 \<le> ocena_marketinga s \<and> ocena_marketinga s \<le> 9.5"
  by (simp add: ocena_marketinga_def)

lemma ocena_prisotnosti_meje:
  "4 \<le> ocena_prisotnosti t r rang \<and> ocena_prisotnosti t r rang \<le> 9.5"
  by (simp add: ocena_prisotnosti_def)

lemma ocena_zdravja_meje: "4 \<le> ocena_zdravja a rang \<and> ocena_zdravja a rang \<le> 9.5"
  by (simp add: ocena_zdravja_def)

lemma v_mejahI: "4 \<le> s \<and> s \<le> 9.5 \<Longrightarrow> v_mejah s"
  by (simp add: v_mejah_def)

lemmas ocene_v_mejah =
  v_mejahI [OF ocena_kode_meje]
  v_mejahI [OF ocena_arhitekture_meje]
  v_mejahI [OF ocena_decentralizacije_meje]
  v_mejahI [OF ocena_varnosti_meje]
  v_mejahI [OF ocena_revizije_meje]
  v_mejahI [OF ocena_pogodbe_meje]
  v_mejahI [OF ocena_distribucije_meje]
  v_mejahI [OF ocena_inflacije_meje]
  v_mejahI [OF ocena_vestinga_meje]
  v_mejahI [OF ocena_koncentracije_meje]
  v_mejahI [OF ocena_likvidnosti_meje]
  v_mejahI [OF ocena_manipulacije_meje]
  v_mejahI [OF ocena_vzdrznosti_meje]
  v_mejahI [OF ocena_transparentnosti_meje]
  v_mejahI [OF ocena_izkusenj_meje]
  v_mejahI [OF ocena_angaziranosti_meje]
  v_mejahI [OF ocena_dokumentacije_meje]
  v_mejahI [OF ocena_marketinga_meje]
  v_mejahI [OF ocena_prisotnosti_meje]
  v_mejahI [OF ocena_zdravja_meje]

lemma tehnicne_v_mejah:
  "list_all v_mejah
     (let m = analiziraj_tehnicne danes p in
      [dostopnost_kode m, kvaliteta_arhitekture m, decentralizacija m,
       varnostni_mehanizmi m, status_revizije m, tveganje_pogodbe m])"
  by (simp add: analiziraj_tehnicne_def Let_def ocene_v_mejah)

lemma ekonomske_v_mejah:
  "list_all v_mejah
     (let m = analiziraj_ekonomske danes p in
      [pravicnost_distribucije m, mehanizem_inflacije m, vesting_urnik m,
       koncentracija_lastnistva m, globina_likvidnosti m, indikatorji_manipulacije m,
       vzdrznost_tokenomike m])"
  by (simp add: analiziraj_ekonomske_def Let_def ocene_v_mejah)

lemma socialne_v_mejah:
  "list_all v_mejah
     (let m = analiziraj_socialne danes p in
      [transparentnost_ekipe m, izkusenost_ekipe m, kvaliteta_dokumentacije m,
       angaziranost_skupnosti m, pristop_marketinga m, prisotnost_na_omrezjih m,
       zdravje_skupnosti m])"
  by (simp add: analiziraj_socialne_def Let_def ocene_v_mejah)

text \<open>The weights of an axis sum to 1, so an axis of sub-scores in [0,10] lies in [0,100].\<close>

lemma os_teh_meje:
  assumes "list_all v_mejah
             [dostopnost_kode m, kvaliteta_arhitekture m, decentralizacija m,
              varnostni_mehanizmi m, status_revizije m, tveganje_pogodbe m]"
  shows "0 \<le> izracunaj_oceno_teh m \<and> izracunaj_oceno_teh m \<le> 100"
  using assms by (simp add: izracunaj_oceno_teh_def v_mejah_def; linarith)

lemma os_eko_meje:
  assumes "list_all v_mejah
             [pravicnost_distribucije m, mehanizem_inflacije m, vesting_urnik m,
              koncentracija_lastnistva m, globina_likvidnosti m, indikatorji_manipulacije m,
              vzdrznost_tokenomike m]"
  shows "0 \<le> izracunaj_oceno_eko m \<and> izracunaj_oceno_eko m \<le> 100"
  using assms by (simp add: izracunaj_oceno_eko_def v_mejah_def; linarith)

lemma os_soc_meje:
  assumes "list_all v_mejah
             [transparentnost_ekipe m, izkusenost_ekipe m, kvaliteta_dokumentacije m,
              angaziranost_skupnosti m, pristop_marketinga m, prisotnost_na_omrezjih m,
              zdravje_skupnosti m]"
  shows "0 \<le> izracunaj_oceno_soc m \<and> izracunaj_oceno_soc m \<le> 100"
  using assms by (simp add: izracunaj_oceno_soc_def v_mejah_def; linarith)

lemma osi_meje:
  "0 \<le> izracunaj_oceno_teh (analiziraj_tehnicne danes p) \<and>
   izracunaj_oceno_teh (analiziraj_tehnicne danes p) \<le> 100"
  "0 \<le> izracunaj_oceno_eko (analiziraj_ekonomske danes p) \<and>
   izracunaj_oceno_eko (analiziraj_ekonomske danes p) \<le> 100"
  "0 \<le> izracunaj_oceno_soc (analiziraj_socialne danes p) \<and>
   izracunaj_oceno_soc (analiziraj_socialne danes p) \<le> 100"
  using tehnicne_v_mejah [of danes p] ekonomske_v_mejah [of danes p] socialne_v_mejah [of danes p]
  by (simp_all only: Let_def os_teh_meje os_eko_meje os_soc_meje)

lemma utezena_vsota_meje:
  assumes "0 \<le> t \<and> t \<le> 100" "0 \<le> e \<and> e \<le> 100" "0 \<le> s \<and> s \<le> 100"
  shows "0 \<le> utezena_vsota t e s \<and> utezena_vsota t e s \<le> 100"
  using assms
  by (simp add: utezena_vsota_def UTEZ_TEHNICNE_def UTEZ_EKONOMSKE_def UTEZ_SOCIALNE_def;
      linarith)

lemma popravek_prevare_meje:
  assumes k: "0 \<le> k \<and> k \<le> 100"
    and v: "0 \<le> verjetnost_prevare ind \<and> verjetnost_prevare ind \<le> 1"
  shows "0 \<le> popravek_prevare k ind \<and> popravek_prevare k ind \<le> 100"
proof (cases "verjetnost_prevare ind > 0")
  case False
  then show ?thesis using k by (simp add: popravek_prevare_def)
next
  case True
  define f where "f = 1 - verjetnost_prevare ind * 0.5"
  have f: "0 \<le> f \<and> f \<le> 1" using v by (simp add: f_def)
  have "0 \<le> k * f" using k f by simp
  moreover have "k * f \<le> k" using k f by (simp add: mult_left_le)
  ultimately show ?thesis using True k by (simp add: popravek_prevare_def f_def)
qed

text \<open>Rounding to \<open>n\<close> decimals keeps a value between two bounds that have \<open>n\<close> decimals.\<close>

lemma zaokrozi_meje:
  assumes "0 \<le> x" "x \<le> 100"
  shows "0 \<le> zaokrozi x n \<and> zaokrozi x n \<le> 100"
proof -
  define y where "y = x * 10 ^ n"
  define f where "f = \<lfloor>y\<rfloor>"
  have y0: "0 \<le> y" using assms by (simp add: y_def)
  have yM: "y \<le> of_int (100 * 10 ^ n)" using assms by (simp add: y_def)
  have f0: "0 \<le> f" using y0 by (simp add: f_def)
  have fM: "f \<le> 100 * 10 ^ n" using yM unfolding f_def by (simp add: floor_le_iff)
  have f1: "y - of_int f \<ge> 1 / 2 \<Longrightarrow> f + 1 \<le> 100 * 10 ^ n"
  proof -
    assume "y - of_int f \<ge> 1 / 2"
    then have "of_int f < y" by linarith
    with yM have "(of_int f :: real) < of_int (100 * 10 ^ n)" by linarith
    then have "f < 100 * 10 ^ n" by (simp only: of_int_less_iff)
    then show ?thesis by simp
  qed
  define r where "r = (if y - of_int f < 1 / 2 then f
          else if y - of_int f > 1 / 2 then f + 1
          else if even f then f
          else f + 1)"
  have r0: "0 \<le> r" using f0 by (simp add: r_def)
  have rM: "r \<le> 100 * 10 ^ n" using fM f1 by (auto simp: r_def)
  have eq: "zaokrozi x n = of_int r / 10 ^ n"
    by (simp add: zaokrozi_def Let_def y_def f_def r_def)
  have "(of_int r :: real) \<le> of_int (100 * 10 ^ n)" using rM by (simp only: of_int_le_iff)
  then have "(of_int r :: real) \<le> 100 * 10 ^ n" by simp
  then have "of_int r / 10 ^ n \<le> (100 :: real)" by (simp add: divide_le_eq)
  moreover have "0 \<le> (of_int r :: real) / 10 ^ n" using r0 by simp
  ultimately show ?thesis unfolding eq by simp
qed

subsection \<open>The dynamic fraud heuristic\<close>

lemma preveri_imena_tocke:
  "fst (preveri_imena ime vs st) = fst st + 5 * int (length (filter (vsebuje ime) vs))"
  by (induction vs arbitrary: st) (auto simp: split_beta)

lemma preveri_fraze_tocke:
  "fst (preveri_fraze besedilo fs st) =
     fst st + 10 * int (length (filter (vsebuje besedilo) fs))"
  by (induction fs arbitrary: st) (auto simp: split_beta)

lemma preveri_imena_znana:
  "je_znana_prevara (snd (preveri_imena ime vs st)) = je_znana_prevara (snd st)"
proof (induction vs arbitrary: st)
  case Nil
  show ?case by simp
next
  case (Cons v vs)
  show ?case by (cases st) (simp add: Cons.IH)
qed

lemma preveri_fraze_znana:
  "je_znana_prevara (snd (preveri_fraze besedilo fs st)) = je_znana_prevara (snd st)"
proof (induction fs arbitrary: st)
  case Nil
  show ?case by simp
next
  case (Cons f fs)
  show ?case by (cases st) (simp add: Cons.IH)
qed

lemma preveri_trzno_kap_tocke:
  "fst (preveri_trzno_kap rang kap st) =
     fst st + (if rang > 200 then
                 (if 0 < kap \<and> kap < 1000000 then 15
                  else if 0 < kap \<and> kap < 10000000 then 8 else 0)
               else 0)"
  by (simp add: preveri_trzno_kap_def)

lemma preveri_padec_tocke:
  "fst (preveri_padec rang ath st) =
     fst st + (if rang > 100 then (if ath < -99 then 25 else if ath < -95 then 15 else 0)
               else 0)"
  by (simp add: preveri_padec_def)

lemma preveri_likvidnost_tocke:
  "fst (preveri_likvidnost rang vol kap st) =
     fst st + (if rang > 100 \<and> kap > 0 then
                 (if vol < 1000 then 20 else if vol < 10000 then 10 else 0)
               else 0)"
  by (simp add: preveri_likvidnost_def)

lemma preveri_ostalo_znana:
  "je_znana_prevara (snd (preveri_trzno_kap rang kap st)) = je_znana_prevara (snd st)"
  "je_znana_prevara (snd (preveri_padec rang ath st)) = je_znana_prevara (snd st)"
  "je_znana_prevara (snd (preveri_likvidnost rang vol kap st)) = je_znana_prevara (snd st)"
  by (simp_all add: preveri_trzno_kap_def preveri_padec_def preveri_likvidnost_def)

text \<open>The points the five blocks add up, in closed form.\<close>

lemma tocke_formula:
  "fst (tocke_in_zastavice p) =
     5 * int (length (filter (vsebuje (ime_projekta p)) sumljiva_imena))
     + 10 * int (length (filter (vsebuje (besedilo_opisa p)) rdece_fraze))
     + (if dobi_rang p > 200 then
          (if 0 < dobi_trzno_kap p \<and> dobi_trzno_kap p < 1000000 then 15
           else if 0 < dobi_trzno_kap p \<and> dobi_trzno_kap p < 10000000 then 8 else 0)
        else 0)
     + (if dobi_rang p > 100 then
          (if ath_sprememba_prevare p < -99 then 25
           else if ath_sprememba_prevare p < -95 then 15 else 0)
        else 0)
     + (if dobi_rang p > 100 \<and> dobi_trzno_kap p > 0 then
          (if dobi_volumen p < 1000 then 20
           else if dobi_volumen p < 10000 then 10 else 0)
        else 0)"
  unfolding tocke_in_zastavice_def Let_def
  by (simp only: preveri_likvidnost_tocke preveri_padec_tocke preveri_trzno_kap_tocke
        preveri_fraze_tocke preveri_imena_tocke fst_conv)

lemma tocke_nenegativne: "0 \<le> fst (tocke_in_zastavice p)"
  unfolding tocke_formula by simp

lemma tocke_znana: "\<not> je_znana_prevara (snd (tocke_in_zastavice p))"
  unfolding tocke_in_zastavice_def Let_def
  by (simp add: preveri_ostalo_znana preveri_fraze_znana preveri_imena_znana
        IndikatorjiPrevare_privzeto_def)

lemma dinamicna_verjetnost:
  "verjetnost_prevare (dinamicna_analiza p) =
     min (real_of_int (fst (tocke_in_zastavice p)) / 100) 0.95"
  by (simp add: dinamicna_analiza_def Let_def)

lemma dinamicna_znana: "\<not> je_znana_prevara (dinamicna_analiza p)"
  by (simp add: dinamicna_analiza_def Let_def tocke_znana)

lemma dinamicna_meje:
  "0 \<le> verjetnost_prevare (dinamicna_analiza p) \<and>
   verjetnost_prevare (dinamicna_analiza p) \<le> 0.95"
  unfolding dinamicna_verjetnost using tocke_nenegativne [of p] by simp

lemma analiziraj_prevare_meje:
  "0 \<le> verjetnost_prevare (analiziraj_prevare znane p ime) \<and>
   verjetnost_prevare (analiziraj_prevare znane p ime) \<le> 1"
  using dinamicna_meje [of p]
  by (simp add: analiziraj_prevare_def Let_def IndikatorjiPrevare_privzeto_def
      split: option.split)

lemma analiziraj_prevare_brez_zadetka:
  assumes "baza_je_znana_prevara znane ime = None"
    and "baza_je_znana_prevara znane (coin_id p) = None"
  shows "analiziraj_prevare znane p ime = dinamicna_analiza p"
  using assms by (simp add: analiziraj_prevare_def)

lemma analiziraj_prevare_zadetek:
  assumes "baza_je_znana_prevara znane ime \<noteq> None
           \<or> baza_je_znana_prevara znane (coin_id p) \<noteq> None"
  shows "je_znana_prevara (analiziraj_prevare znane p ime) \<and>
         verjetnost_prevare (analiziraj_prevare znane p ime) = 1 \<and>
         podatki_znane_prevare (analiziraj_prevare znane p ime) \<noteq> None"
  using assms
  by (auto simp: analiziraj_prevare_def Let_def IndikatorjiPrevare_privzeto_def
      split: option.split)

text \<open>
  C6. For every payload, each of the twenty sub-scores lies in [0,10], each of the three
  axis scores in [0,100], and the final score in [0,100], before and after the rounding of
  the report. The fraud indicators are those the classifier computes for the payload,
  under any registry.
\<close>

theorem C6_meje_ocen:
  "(let r = oceni danes p (analiziraj_prevare znane p ime) in
     list_all (\<lambda>s. 0 \<le> s \<and> s \<le> 10)
       [dostopnost_kode (tehnicne r), kvaliteta_arhitekture (tehnicne r),
        decentralizacija (tehnicne r), varnostni_mehanizmi (tehnicne r),
        status_revizije (tehnicne r), tveganje_pogodbe (tehnicne r),
        pravicnost_distribucije (ekonomske r), mehanizem_inflacije (ekonomske r),
        vesting_urnik (ekonomske r), koncentracija_lastnistva (ekonomske r),
        globina_likvidnosti (ekonomske r), indikatorji_manipulacije (ekonomske r),
        vzdrznost_tokenomike (ekonomske r),
        transparentnost_ekipe (socialne r), izkusenost_ekipe (socialne r),
        kvaliteta_dokumentacije (socialne r), angaziranost_skupnosti (socialne r),
        pristop_marketinga (socialne r), prisotnost_na_omrezjih (socialne r),
        zdravje_skupnosti (socialne r)]
     \<and> list_all (\<lambda>a. 0 \<le> a \<and> a \<le> 100) [ocena_teh r, ocena_eko r, ocena_soc r]
     \<and> 0 \<le> koncna r \<and> koncna r \<le> 100
     \<and> 0 \<le> zaokrozi (koncna r) 2 \<and> zaokrozi (koncna r) 2 \<le> 100)"
proof -
  define ind where "ind = analiziraj_prevare znane p ime"
  define r where "r = oceni danes p ind"
  have teh: "list_all v_mejah
       [dostopnost_kode (tehnicne r), kvaliteta_arhitekture (tehnicne r),
        decentralizacija (tehnicne r), varnostni_mehanizmi (tehnicne r),
        status_revizije (tehnicne r), tveganje_pogodbe (tehnicne r)]"
    using tehnicne_v_mejah [of danes p] by (simp only: r_def osi_oceni Let_def)
  have eko: "list_all v_mejah
       [pravicnost_distribucije (ekonomske r), mehanizem_inflacije (ekonomske r),
        vesting_urnik (ekonomske r), koncentracija_lastnistva (ekonomske r),
        globina_likvidnosti (ekonomske r), indikatorji_manipulacije (ekonomske r),
        vzdrznost_tokenomike (ekonomske r)]"
    using ekonomske_v_mejah [of danes p] by (simp only: r_def osi_oceni Let_def)
  have soc: "list_all v_mejah
       [transparentnost_ekipe (socialne r), izkusenost_ekipe (socialne r),
        kvaliteta_dokumentacije (socialne r), angaziranost_skupnosti (socialne r),
        pristop_marketinga (socialne r), prisotnost_na_omrezjih (socialne r),
        zdravje_skupnosti (socialne r)]"
    using socialne_v_mejah [of danes p] by (simp only: r_def osi_oceni Let_def)
  have osi: "0 \<le> ocena_teh r \<and> ocena_teh r \<le> 100"
    "0 \<le> ocena_eko r \<and> ocena_eko r \<le> 100"
    "0 \<le> ocena_soc r \<and> ocena_soc r \<le> 100"
    by (simp_all only: r_def osi_oceni osi_meje)
  have k: "0 \<le> koncna r \<and> koncna r \<le> 100"
    unfolding r_def koncna_oceni
    by (rule popravek_prevare_meje [OF utezena_vsota_meje [OF osi_meje]])
       (simp only: ind_def analiziraj_prevare_meje)
  have z: "0 \<le> zaokrozi (koncna r) 2 \<and> zaokrozi (koncna r) 2 \<le> 100"
    using k by (simp only: zaokrozi_meje)
  have pod: "list_all (\<lambda>s. 0 \<le> s \<and> s \<le> 10)
       [dostopnost_kode (tehnicne r), kvaliteta_arhitekture (tehnicne r),
        decentralizacija (tehnicne r), varnostni_mehanizmi (tehnicne r),
        status_revizije (tehnicne r), tveganje_pogodbe (tehnicne r),
        pravicnost_distribucije (ekonomske r), mehanizem_inflacije (ekonomske r),
        vesting_urnik (ekonomske r), koncentracija_lastnistva (ekonomske r),
        globina_likvidnosti (ekonomske r), indikatorji_manipulacije (ekonomske r),
        vzdrznost_tokenomike (ekonomske r),
        transparentnost_ekipe (socialne r), izkusenost_ekipe (socialne r),
        kvaliteta_dokumentacije (socialne r), angaziranost_skupnosti (socialne r),
        pristop_marketinga (socialne r), prisotnost_na_omrezjih (socialne r),
        zdravje_skupnosti (socialne r)]"
    using teh eko soc by (simp add: v_mejah_def)
  have osi_l: "list_all (\<lambda>a. 0 \<le> a \<and> a \<le> 100) [ocena_teh r, ocena_eko r, ocena_soc r]"
    using osi by simp
  from pod osi_l k z show ?thesis
    unfolding Let_def r_def ind_def by blast
qed

subsection \<open>Liquidity and volume\<close>

lemma ocena_likvidnosti_mono:
  "v \<le> w \<Longrightarrow> ocena_likvidnosti v \<le> ocena_likvidnosti w"
  by (simp add: ocena_likvidnosti_def)

lemma globina_likvidnosti_volumen:
  "globina_likvidnosti (analiziraj_ekonomske danes p) = ocena_likvidnosti (dobi_volumen p)"
  by (simp add: analiziraj_ekonomske_def Let_def)

text \<open>
  C8. Of two payloads of which the second has the strictly larger 24h volume, the second
  has a liquidity-depth score at least as high as the first. The 24h volume of a payload
  is the one \<open>_dobi_volumen\<close> reads. The liquidity depth depends on nothing else, so the
  two payloads may differ or agree in everything else.
\<close>

theorem C8_likvidnost_monotona:
  "dobi_volumen p < dobi_volumen q \<Longrightarrow>
     globina_likvidnosti (analiziraj_ekonomske danes p)
       \<le> globina_likvidnosti (analiziraj_ekonomske danes q)"
  unfolding globina_likvidnosti_volumen by (rule ocena_likvidnosti_mono) simp

theorem C8_likvidnost_monotona_witness:
  "dobi_volumen (podatki_z_volumnom 50 150000) < dobi_volumen (podatki_z_volumnom 50 3000000)
   \<and> globina_likvidnosti (analiziraj_ekonomske 0 (podatki_z_volumnom 50 150000)) = 5
   \<and> globina_likvidnosti (analiziraj_ekonomske 0 (podatki_z_volumnom 50 3000000)) = 6
   \<and> globina_likvidnosti (analiziraj_ekonomske 0 (podatki_z_volumnom 50 150000))
       \<le> globina_likvidnosti (analiziraj_ekonomske 0 (podatki_z_volumnom 50 3000000))"
proof -
  have a: "dobi_volumen (podatki_z_volumnom 50 150000)
             < dobi_volumen (podatki_z_volumnom 50 3000000)"
    by code_simp
  have b: "globina_likvidnosti (analiziraj_ekonomske 0 (podatki_z_volumnom 50 150000)) = 5"
    by code_simp
  have c: "globina_likvidnosti (analiziraj_ekonomske 0 (podatki_z_volumnom 50 3000000)) = 6"
    by code_simp
  from a b c C8_likvidnost_monotona [OF a, of 0] show ?thesis by blast
qed

text \<open>
  The volume of the markets entry comes first in the chain and a 0 there defers to
  \<open>basic_info\<close>: with 3 billion in \<open>basic_info\<close>, a markets volume of 0 resolves to 3
  billion and a markets volume of 100 to 100.
\<close>

lemma volumen_po_verigi:
  "dobi_volumen
     \<lparr> osnovni = prazni_osnovni
         \<lparr>info_market_data := prazni_info\<lparr>i_total_volume_usd := Some 3000000000\<rparr>\<rparr>,
       market_data = prazni_trzni\<lparr>m_total_volume := Some 0\<rparr>, coin_id = [] \<rparr> = 3000000000"
  "dobi_volumen
     \<lparr> osnovni = prazni_osnovni
         \<lparr>info_market_data := prazni_info\<lparr>i_total_volume_usd := Some 3000000000\<rparr>\<rparr>,
       market_data = prazni_trzni\<lparr>m_total_volume := Some 100\<rparr>, coin_id = [] \<rparr> = 100"
  by (simp_all add: dobi_volumen_def ali_def ali_privzeto_def resnicen_def prazni_osnovni_def
      prazni_info_def prazni_trzni_def)

subsection \<open>The age inferred from the rank\<close>

lemma starost_enaka_do_200:
  "rang \<le> 200 \<Longrightarrow>
     starost_let_ekonomske rang s = starost_let_tehnicne rang s \<and>
     starost_let_socialne rang s = starost_let_tehnicne rang s"
  by (simp add: starost_let_tehnicne_def starost_let_ekonomske_def starost_let_socialne_def)

lemma starost_socialne_ekonomske:
  "starost_let_socialne rang s = starost_let_ekonomske rang s"
  by (simp add: starost_let_ekonomske_def starost_let_socialne_def)

text \<open>
  C5. Without a usable genesis date the three analysers infer the age from the rank. For
  rank 15 all three use 6 years. For rank 500 the technical analyser uses 1 year, while the
  economic and the social analyser use 2 years: their copies of the ladder have no band
  for ranks up to 200 and end in 2 years. The difference reaches the scores: the
  technical decentralisation of such a payload is 5 (6.5 at an age of 2 years) and the
  economic vesting score 7 (6 at an age of 1 year).
\<close>

theorem C5_starost_po_rangu:
  "starost_let_tehnicne 15 (izracunaj_starost danes None) = 6
   \<and> starost_let_ekonomske 15 (izracunaj_starost danes None) = 6
   \<and> starost_let_socialne 15 (izracunaj_starost danes None) = 6
   \<and> starost_let_tehnicne 500 (izracunaj_starost danes None) = 1
   \<and> starost_let_ekonomske 500 (izracunaj_starost danes None) = 2
   \<and> starost_let_socialne 500 (izracunaj_starost danes None) = 2
   \<and> decentralizacija (analiziraj_tehnicne danes (podatki_z_rangom 500)) = 5
   \<and> ocena_decentralizacije 500 2 = 6.5
   \<and> vesting_urnik (analiziraj_ekonomske danes (podatki_z_rangom 500)) = 7
   \<and> ocena_vestinga 1 = 6"
proof -
  have r: "dobi_rang (podatki_z_rangom 500) = 500"
    by (simp add: dobi_rang_def podatki_z_rangom_def prazni_trzni_def prazni_osnovni_def
        prazni_info_def ali_def ali_privzeto_def resnicen_def)
  have g: "genesis_date (osnovni (podatki_z_rangom 500)) = None"
    by (simp add: podatki_z_rangom_def prazni_osnovni_def)
  have d: "decentralizacija (analiziraj_tehnicne danes (podatki_z_rangom 500)) = 5"
    by (simp add: analiziraj_tehnicne_def Let_def r g izracunaj_starost_def
        starost_let_tehnicne_def ocena_decentralizacije_def)
  have v: "vesting_urnik (analiziraj_ekonomske danes (podatki_z_rangom 500)) = 7"
    by (simp add: analiziraj_ekonomske_def Let_def r g izracunaj_starost_def
        starost_let_ekonomske_def ocena_vestinga_def)
  have a: "starost_let_tehnicne 15 (izracunaj_starost danes None) = 6
   \<and> starost_let_ekonomske 15 (izracunaj_starost danes None) = 6
   \<and> starost_let_socialne 15 (izracunaj_starost danes None) = 6
   \<and> starost_let_tehnicne 500 (izracunaj_starost danes None) = 1
   \<and> starost_let_ekonomske 500 (izracunaj_starost danes None) = 2
   \<and> starost_let_socialne 500 (izracunaj_starost danes None) = 2"
    by (simp add: izracunaj_starost_def starost_let_tehnicne_def starost_let_ekonomske_def
        starost_let_socialne_def)
  have o: "ocena_decentralizacije 500 2 = 6.5 \<and> ocena_vestinga 1 = 6"
    by (simp add: ocena_decentralizacije_def ocena_vestinga_def)
  from a d v o show ?thesis by blast
qed

subsection \<open>Registry hits and the dynamic path\<close>

text \<open>
  C10. When neither the name nor the coin id is found in the registry, the fraud
  probability is at most 0.95 and the project is not marked as a known scam. Hence a
  probability of 1.0 or the known-scam mark appear only when one of the two registry
  lookups succeeded.
\<close>

theorem C10_dinamicna_pot:
  "(baza_je_znana_prevara znane ime = None \<and> baza_je_znana_prevara znane (coin_id p) = None
      \<longrightarrow> verjetnost_prevare (analiziraj_prevare znane p ime) \<le> 0.95
          \<and> \<not> je_znana_prevara (analiziraj_prevare znane p ime))
   \<and> (verjetnost_prevare (analiziraj_prevare znane p ime) = 1
        \<or> je_znana_prevara (analiziraj_prevare znane p ime)
      \<longrightarrow> baza_je_znana_prevara znane ime \<noteq> None
          \<or> baza_je_znana_prevara znane (coin_id p) \<noteq> None)"
proof -
  have a: "verjetnost_prevare (analiziraj_prevare znane p ime) \<le> 0.95
          \<and> \<not> je_znana_prevara (analiziraj_prevare znane p ime)"
    if "baza_je_znana_prevara znane ime = None"
      and "baza_je_znana_prevara znane (coin_id p) = None"
    using dinamicna_meje [of p] dinamicna_znana [of p]
    by (simp add: analiziraj_prevare_brez_zadetka [OF that])
  have b: "baza_je_znana_prevara znane ime \<noteq> None
          \<or> baza_je_znana_prevara znane (coin_id p) \<noteq> None"
    if "verjetnost_prevare (analiziraj_prevare znane p ime) = 1
        \<or> je_znana_prevara (analiziraj_prevare znane p ime)"
  proof (rule ccontr)
    assume "\<not> ?thesis"
    then have n: "baza_je_znana_prevara znane ime = None"
      "baza_je_znana_prevara znane (coin_id p) = None"
      by simp_all
    from a [OF n] that show False by simp
  qed
  from a b show ?thesis by blast
qed

theorem C10_dinamicna_pot_witness:
  "baza_je_znana_prevara primer_baza ''Primer'' = None
   \<and> baza_je_znana_prevara primer_baza (coin_id primer_C) = None
   \<and> verjetnost_prevare (analiziraj_prevare primer_baza primer_C ''Primer'') \<le> 0.95
   \<and> \<not> je_znana_prevara (analiziraj_prevare primer_baza primer_C ''Primer'')
   \<and> je_znana_prevara (analiziraj_prevare primer_baza primer_C ''SQUID'')
   \<and> baza_je_znana_prevara primer_baza ''SQUID'' \<noteq> None"
proof -
  have a: "baza_je_znana_prevara primer_baza ''Primer'' = None"
    by code_simp
  have b: "baza_je_znana_prevara primer_baza (coin_id primer_C) = None"
    by code_simp
  have c: "je_znana_prevara (analiziraj_prevare primer_baza primer_C ''SQUID'')"
    by code_simp
  from a b C10_dinamicna_pot [of primer_baza "''Primer''" primer_C]
  have d: "verjetnost_prevare (analiziraj_prevare primer_baza primer_C ''Primer'') \<le> 0.95
           \<and> \<not> je_znana_prevara (analiziraj_prevare primer_baza primer_C ''Primer'')"
    by blast
  from b c C10_dinamicna_pot [of primer_baza "''SQUID''" primer_C]
  have e: "baza_je_znana_prevara primer_baza ''SQUID'' \<noteq> None"
    by blast
  from a b c d e show ?thesis by blast
qed

subsection \<open>The points of the heuristic\<close>

lemma fraza_guaranteed_return:
  "vsebuje s ''guaranteed return'' \<Longrightarrow> 1 \<le> length (filter (vsebuje s) rdece_fraze)"
  by (simp add: rdece_fraze_def)

lemma dinamicna_rug_pull:
  "verjetnost_prevare (dinamicna_analiza p) > 0.6 \<Longrightarrow> ath_sprememba_prevare p < -99 \<Longrightarrow>
   dobi_volumen p < 10000 \<Longrightarrow> tip_prevare (dinamicna_analiza p) = RUG_PULL"
proof -
  assume "verjetnost_prevare (dinamicna_analiza p) > 0.6"
    and a: "ath_sprememba_prevare p < -99" and v: "dobi_volumen p < 10000"
  then have m: "min (real_of_int (fst (tocke_in_zastavice p)) / 100) 0.95 > 0.6"
    by (simp only: dinamicna_verjetnost)
  show ?thesis unfolding dinamicna_analiza_def Let_def
    by (simp only: m a v if_True simp_thms) simp
qed

text \<open>
  C3, as the code has it. For every payload without a registry match the heuristic
  accumulates +5 per hype token in the name, +10 per suspicious phrase in the description,
  for rank above 200 +15 if the market cap lies strictly between 0 and 1M, else +8 if it
  lies strictly between 0 and 10M, for rank above 100 +25 if the all-time-high change is
  below -99, else +15 if below -95, and, for rank above 100 and a positive market cap only,
  +20 if the volume is below 1000, else +10 if below 10000. The probability is
  min(points/100, 0.95). A payload of rank 5000, market cap 50000, volume 200, a
  description containing "guaranteed return" and an all-time-high change of -99.5 gets a
  probability of at least 0.6 and the scam type rug pull.
\<close>

theorem C3_tocke_prevare:
  "baza_je_znana_prevara znane ime = None \<Longrightarrow>
   baza_je_znana_prevara znane (coin_id p) = None \<Longrightarrow>
   fst (tocke_in_zastavice p) =
     5 * int (length (filter (vsebuje (ime_projekta p)) sumljiva_imena))
     + 10 * int (length (filter (vsebuje (besedilo_opisa p)) rdece_fraze))
     + (if dobi_rang p > 200 then
          (if 0 < dobi_trzno_kap p \<and> dobi_trzno_kap p < 1000000 then 15
           else if 0 < dobi_trzno_kap p \<and> dobi_trzno_kap p < 10000000 then 8 else 0)
        else 0)
     + (if dobi_rang p > 100 then
          (if ath_sprememba_prevare p < -99 then 25
           else if ath_sprememba_prevare p < -95 then 15 else 0)
        else 0)
     + (if dobi_rang p > 100 \<and> dobi_trzno_kap p > 0 then
          (if dobi_volumen p < 1000 then 20
           else if dobi_volumen p < 10000 then 10 else 0)
        else 0)
   \<and> verjetnost_prevare (analiziraj_prevare znane p ime) =
       min (real_of_int (fst (tocke_in_zastavice p)) / 100) 0.95
   \<and> (dobi_rang p = 5000 \<and> dobi_trzno_kap p = 50000 \<and> dobi_volumen p = 200
        \<and> vsebuje (besedilo_opisa p) ''guaranteed return''
        \<and> ath_sprememba_prevare p = -99.5
      \<longrightarrow> verjetnost_prevare (analiziraj_prevare znane p ime) \<ge> 0.6
          \<and> tip_prevare (analiziraj_prevare znane p ime) = RUG_PULL)"
proof -
  assume n: "baza_je_znana_prevara znane ime = None"
    "baza_je_znana_prevara znane (coin_id p) = None"
  have d: "analiziraj_prevare znane p ime = dinamicna_analiza p"
    by (rule analiziraj_prevare_brez_zadetka [OF n])
  have v: "verjetnost_prevare (analiziraj_prevare znane p ime) =
       min (real_of_int (fst (tocke_in_zastavice p)) / 100) 0.95"
    by (simp only: d dinamicna_verjetnost)
  have s: "verjetnost_prevare (analiziraj_prevare znane p ime) \<ge> 0.6
          \<and> tip_prevare (analiziraj_prevare znane p ime) = RUG_PULL"
    if c: "dobi_rang p = 5000 \<and> dobi_trzno_kap p = 50000 \<and> dobi_volumen p = 200
        \<and> vsebuje (besedilo_opisa p) ''guaranteed return''
        \<and> ath_sprememba_prevare p = -99.5"
  proof -
    from c have f: "1 \<le> length (filter (vsebuje (besedilo_opisa p)) rdece_fraze)"
      using fraza_guaranteed_return by blast
    have "70 \<le> fst (tocke_in_zastavice p)"
      unfolding tocke_formula using c f by simp
    then have "(70 :: real) \<le> real_of_int (fst (tocke_in_zastavice p))"
      by linarith
    then have g: "0.7 \<le> verjetnost_prevare (dinamicna_analiza p)"
      unfolding dinamicna_verjetnost by simp
    then have "verjetnost_prevare (dinamicna_analiza p) > 0.6"
      by simp
    then have "tip_prevare (dinamicna_analiza p) = RUG_PULL"
      using c by (intro dinamicna_rug_pull) simp_all
    with g show ?thesis unfolding d by simp
  qed
  from tocke_formula [of p] v s show ?thesis by blast
qed

theorem C3_tocke_prevare_witness:
  "baza_je_znana_prevara primer_baza ''Primer'' = None
   \<and> baza_je_znana_prevara primer_baza (coin_id primer_C) = None
   \<and> dobi_rang primer_C = 5000 \<and> dobi_trzno_kap primer_C = 50000 \<and> dobi_volumen primer_C = 200
   \<and> vsebuje (besedilo_opisa primer_C) ''guaranteed return''
   \<and> ath_sprememba_prevare primer_C = -99.5
   \<and> fst (tocke_in_zastavice primer_C) = 70
   \<and> verjetnost_prevare (analiziraj_prevare primer_baza primer_C ''Primer'') \<ge> 0.6
   \<and> tip_prevare (analiziraj_prevare primer_baza primer_C ''Primer'') = RUG_PULL"
proof -
  have a: "baza_je_znana_prevara primer_baza ''Primer'' = None"
    by code_simp
  have b: "baza_je_znana_prevara primer_baza (coin_id primer_C) = None"
    by code_simp
  have c: "dobi_rang primer_C = 5000 \<and> dobi_trzno_kap primer_C = 50000
        \<and> dobi_volumen primer_C = 200
        \<and> vsebuje (besedilo_opisa primer_C) ''guaranteed return''
        \<and> ath_sprememba_prevare primer_C = -99.5"
    by code_simp
  have t: "fst (tocke_in_zastavice primer_C) = 70"
    by code_simp
  from c C3_tocke_prevare [OF a b]
  have "verjetnost_prevare (analiziraj_prevare primer_baza primer_C ''Primer'') \<ge> 0.6
        \<and> tip_prevare (analiziraj_prevare primer_baza primer_C ''Primer'') = RUG_PULL"
    by blast
  with a b c t show ?thesis by blast
qed

text \<open>
  C3 as the specification words it fails where the market cap is missing: for rank 150
  without market cap and volume the specification counts 20 points for the low volume,
  the code none.
\<close>

theorem C3_protiprimer:
  "baza_je_znana_prevara [] ''primer'' = None
   \<and> baza_je_znana_prevara [] (coin_id (podatki_z_rangom 150)) = None
   \<and> dobi_rang (podatki_z_rangom 150) = 150
   \<and> dobi_trzno_kap (podatki_z_rangom 150) = 0
   \<and> dobi_volumen (podatki_z_rangom 150) = 0
   \<and> tocke_po_specifikaciji (podatki_z_rangom 150) = 20
   \<and> min (real_of_int (tocke_po_specifikaciji (podatki_z_rangom 150)) / 100) 0.95 = 0.2
   \<and> fst (tocke_in_zastavice (podatki_z_rangom 150)) = 0
   \<and> verjetnost_prevare (analiziraj_prevare [] (podatki_z_rangom 150) ''primer'') = 0"
  by code_simp

lemma porocilo_prevare_polja:
  "map_of (ustvari_porocilo_prevare cas ime simbol z) ''je_potrjena_prevara''
     = Some (Logicna True)"
  "map_of (ustvari_porocilo_prevare cas ime simbol z) ''stopnja_tveganja''
     = Some (Niz ''CRITICAL'')"
  "map_of (ustvari_porocilo_prevare cas ime simbol z) ''kategorija''
     = Some (Niz ''KNOWN_SCAM'')"
  "map_of (ustvari_porocilo_prevare cas ime simbol z) ''verjetnost_prevare'' = None"
  by (simp_all add: ustvari_porocilo_prevare_def)

text \<open>
  C2, as the code has it. For every identifier that matches the registry, classification
  returns the known-scam report built from the registry entry alone, whatever the provider
  would deliver: it is marked as a confirmed scam, its risk tier is the literal string
  "CRITICAL", its category "KNOWN_SCAM", and it has no entry for the fraud probability.
  The fraud indicators computed for a name that matches the registry have probability
  1.0 and the known-scam mark.
\<close>

theorem C2_porocilo_prevare:
  "baza_je_znana_prevara znane identifikator = Some z \<Longrightarrow>
   klasificiraj znane kl danes cas identifikator =
     Inr (ustvari_porocilo_prevare cas (niz_ali (zp_name z) identifikator)
            (upper (niz_ali (zp_symbol z) ''???'')) z)
   \<and> (let r = ustvari_porocilo_prevare cas (niz_ali (zp_name z) identifikator)
                 (upper (niz_ali (zp_symbol z) ''???'')) z
      in map_of r ''je_potrjena_prevara'' = Some (Logicna True)
         \<and> map_of r ''stopnja_tveganja'' = Some (Niz ''CRITICAL'')
         \<and> map_of r ''kategorija'' = Some (Niz ''KNOWN_SCAM'')
         \<and> map_of r ''verjetnost_prevare'' = None)
   \<and> verjetnost_prevare (analiziraj_prevare znane p identifikator) = 1
   \<and> je_znana_prevara (analiziraj_prevare znane p identifikator)"
proof -
  assume h: "baza_je_znana_prevara znane identifikator = Some z"
  have k: "klasificiraj znane kl danes cas identifikator =
     Inr (ustvari_porocilo_prevare cas (niz_ali (zp_name z) identifikator)
            (upper (niz_ali (zp_symbol z) ''???'')) z)"
    by (simp add: klasificiraj_def h)
  have i: "je_znana_prevara (analiziraj_prevare znane p identifikator) \<and>
         verjetnost_prevare (analiziraj_prevare znane p identifikator) = 1 \<and>
         podatki_znane_prevare (analiziraj_prevare znane p identifikator) \<noteq> None"
    by (rule analiziraj_prevare_zadetek) (simp add: h)
  from k i show ?thesis
    by (simp add: Let_def porocilo_prevare_polja)
qed

theorem C2_porocilo_prevare_witness:
  "baza_je_znana_prevara primer_baza ''SQUID'' = Some primer_zapis
   \<and> klasificiraj primer_baza primer_klient 0 ''t'' ''SQUID'' =
       Inr (ustvari_porocilo_prevare ''t'' ''Squid Game'' ''SQUID'' primer_zapis)
   \<and> verjetnost_prevare (analiziraj_prevare primer_baza primer_C ''SQUID'') = 1
   \<and> je_znana_prevara (analiziraj_prevare primer_baza primer_C ''SQUID'')"
proof -
  have a: "baza_je_znana_prevara primer_baza ''SQUID'' = Some primer_zapis"
    by code_simp
  have n: "niz_ali (zp_name primer_zapis) ''SQUID'' = ''Squid Game''"
    "upper (niz_ali (zp_symbol primer_zapis) ''???'') = ''SQUID''"
    by code_simp+
  from C2_porocilo_prevare [OF a, of primer_klient 0 "''t''" primer_C] a
  show ?thesis by (simp add: n)
qed

text \<open>
  C2 as the specification words it fails on the rendered tier: the report of a registry
  hit carries the string "CRITICAL", not the value "Critical Risk - Likely Scam" of the
  critical tier, and no fraud probability.
\<close>

theorem C2_protiprimer:
  "baza_je_znana_prevara primer_baza ''SQUID'' = Some primer_zapis
   \<and> klasificiraj primer_baza primer_klient 0 ''t'' ''SQUID'' =
       Inr (ustvari_porocilo_prevare ''t'' ''Squid Game'' ''SQUID'' primer_zapis)
   \<and> map_of (ustvari_porocilo_prevare ''t'' ''Squid Game'' ''SQUID'' primer_zapis)
         ''stopnja_tveganja'' = Some (Niz ''CRITICAL'')
   \<and> Niz ''CRITICAL'' \<noteq> Niz (StopnjaTveganja_value KRITICNO)
   \<and> StopnjaTveganja_value KRITICNO = ''Critical Risk - Likely Scam''
   \<and> map_of (ustvari_porocilo_prevare ''t'' ''Squid Game'' ''SQUID'' primer_zapis)
         ''verjetnost_prevare'' = None"
  by code_simp

subsection \<open>Batch classification\<close>

lemma batch_zanka_map:
  "batch_zanka znane kl danes cas ids rezultati =
     rezultati @
       map (\<lambda>ident. case klasificiraj znane kl danes cas ident of
                       Inr rezultat \<Rightarrow> rezultat
                     | Inl e \<Rightarrow> [(''ime'', Niz ident), (''napaka'', Niz (str_izjema e))])
         ids"
  by (induction ids arbitrary: rezultati) (simp_all split: sum.split)

text \<open>
  C9. Batch classification returns one entry per identifier, in the order of the
  identifiers: the report where classification succeeds, and where it raises an error
  record with the identifier and the text of the exception. A failing item therefore
  stops nothing: the items after it are classified as if it had not been there.
\<close>

theorem C9_batch_analiziraj:
  "batch_analiziraj znane kl danes cas ids =
     map (\<lambda>ident. case klasificiraj znane kl danes cas ident of
                     Inr rezultat \<Rightarrow> rezultat
                   | Inl e \<Rightarrow> [(''ime'', Niz ident), (''napaka'', Niz (str_izjema e))])
       ids
   \<and> length (batch_analiziraj znane kl danes cas ids) = length ids
   \<and> batch_analiziraj znane kl danes cas (ids @ ids') =
       batch_analiziraj znane kl danes cas ids @ batch_analiziraj znane kl danes cas ids'"
  by (simp add: batch_analiziraj_def batch_zanka_map)

lemma batch_primer:
  "batch_analiziraj primer_baza primer_klient 0 ''t'' [''neznan'', ''SQUID''] =
     [[(''ime'', Niz ''neznan''),
       (''napaka'', Niz (''Kovanec '' @ v_narekovajih ''neznan'' @ '' ni najden''))],
      ustvari_porocilo_prevare ''t'' ''Squid Game'' ''SQUID'' primer_zapis]"
  by code_simp

end
